theory Spec2Isabelle
  imports Complex_Main "HOL-Library.Word"
begin

section \<open>Strings and patterns\<close>

text \<open>
  A JavaScript string is modelled as the list of its UTF-16 code units, restricted to the
  code units U+0000 .. U+00FF that a \<open>char\<close> holds: \<open>length\<close> counts code units,
  \<open>take\<close> is \<open>substring(0, n)\<close>. Thrown errors are carried as their message text.
\<close>

definition startsWith :: "string \<Rightarrow> string \<Rightarrow> bool" where
  "startsWith p s = (take (length p) s = p)"

fun includes_str :: "string \<Rightarrow> string \<Rightarrow> bool" where
  "includes_str p [] = (p = [])"
| "includes_str p (c # cs) = (startsWith p (c # cs) \<or> includes_str p cs)"

text \<open>The truth value of a string that may be null or undefined.\<close>

definition truthy :: "string option \<Rightarrow> bool" where
  "truthy v = (case v of None \<Rightarrow> False | Some s \<Rightarrow> s \<noteq> [])"

text \<open>White space of \<open>String.prototype.trim\<close> and of the class \<open>\s\<close>, below U+0100.\<close>

definition is_space :: "char \<Rightarrow> bool" where
  "is_space c = (of_char c \<in> {9, 10, 11, 12, 13, 32, 160 :: nat})"

definition is_line_terminator :: "char \<Rightarrow> bool" where
  "is_line_terminator c = (of_char c \<in> {10, 13 :: nat})"

definition trim :: "string \<Rightarrow> string" where
  "trim s = rev (dropWhile is_space (rev (dropWhile is_space s)))"

text \<open>\<open>String.prototype.toLowerCase\<close> on U+0000 .. U+00FF.\<close>

definition lower_char :: "char \<Rightarrow> char" where
  "lower_char c =
     (let n = (of_char c :: nat)
      in if (65 \<le> n \<and> n \<le> 90) \<or> (192 \<le> n \<and> n \<le> 222 \<and> n \<noteq> 215)
         then char_of (n + 32) else c)"

definition toLowerCase :: "string \<Rightarrow> string" where
  "toLowerCase s = map lower_char s"

text \<open>
  The regular expressions of the sources are sequences of single-character atoms, each
  with at most one quantifier, all with the flag \<open>i\<close> and none with the flag \<open>g\<close>.
  Under \<open>i\<close> without \<open>u\<close> an ASCII letter of the pattern matches exactly its two
  ASCII cases.
\<close>

datatype atom = Lit char | Dot | Space

datatype quant = One | Opt | Star | Plus

type_synonym regex = "(atom \<times> quant) list"

definition canon :: "char \<Rightarrow> char" where
  "canon c = (let n = (of_char c :: nat) in if 65 \<le> n \<and> n \<le> 90 then char_of (n + 32) else c)"

fun atom_ok :: "atom \<Rightarrow> char \<Rightarrow> bool" where
  "atom_ok (Lit p) c = (canon c = canon p)"
| "atom_ok Dot c = (\<not> is_line_terminator c)"
| "atom_ok Space c = is_space c"

fun match_here :: "regex \<Rightarrow> string \<Rightarrow> bool" where
  "match_here [] s = True"
| "match_here ((a, One) # p) [] = False"
| "match_here ((a, One) # p) (c # cs) = (atom_ok a c \<and> match_here p cs)"
| "match_here ((a, Opt) # p) [] = match_here p []"
| "match_here ((a, Opt) # p) (c # cs) =
     ((atom_ok a c \<and> match_here p cs) \<or> match_here p (c # cs))"
| "match_here ((a, Star) # p) [] = match_here p []"
| "match_here ((a, Star) # p) (c # cs) =
     ((atom_ok a c \<and> match_here ((a, Star) # p) cs) \<or> match_here p (c # cs))"
| "match_here ((a, Plus) # p) [] = False"
| "match_here ((a, Plus) # p) (c # cs) = (atom_ok a c \<and> match_here ((a, Star) # p) cs)"

text \<open>\<open>pattern.test(s)\<close>: the pattern matches at some position of \<open>s\<close>.\<close>

fun regex_test :: "regex \<Rightarrow> string \<Rightarrow> bool" where
  "regex_test p [] = match_here p []"
| "regex_test p (c # cs) = (match_here p (c # cs) \<or> regex_test p cs)"

definition lit :: "string \<Rightarrow> regex" where
  "lit s = map (\<lambda>c. (Lit c, One)) s"

definition some_test :: "regex list \<Rightarrow> string \<Rightarrow> bool" where
  "some_test ps s = list_ex (\<lambda>pattern. regex_test pattern s) ps"

definition digit :: "nat \<Rightarrow> char" where
  "digit d = ''0123456789'' ! d"

fun decimal :: "nat \<Rightarrow> string" where
  "decimal n = (if n < 10 then [digit n] else decimal (n div 10) @ [digit (n mod 10)])"

section \<open>Automation configuration (playwright-config)\<close>

definition SUCCESS_PATTERNS :: "regex list" where
  "SUCCESS_PATTERNS =
    [ lit ''unsubscribed'',
      lit ''successfully'' @ [(Space, Plus)] @ lit ''removed'',
      lit ''you'' @ [(Space, Plus)] @ lit ''have'' @ [(Space, Plus)] @ lit ''been''
        @ [(Space, Plus)] @ lit ''removed'',
      lit ''you'' @ [(Space, Plus)] @ lit ''will'' @ [(Space, Plus)] @ lit ''no''
        @ [(Space, Plus)] @ lit ''longer'' @ [(Space, Plus)] @ lit ''receive'',
      lit ''email'' @ [(Space, Plus)] @ lit ''preferences'' @ [(Space, Plus)] @ lit ''updated'',
      lit ''subscription'' @ [(Space, Plus)] @ lit ''cancelled'',
      lit ''opt'' @ [(Dot, One)] @ lit ''out'' @ [(Space, Plus)] @ lit ''confirmed'',
      lit ''removed'' @ [(Space, Plus)] @ lit ''from'' @ [(Dot, Star)] @ lit ''list'',
      lit ''thank'' @ [(Space, Plus)] @ lit ''you'' ]"

definition UNSUBSCRIBE_PATTERNS :: "regex list" where
  "UNSUBSCRIBE_PATTERNS =
    [ lit ''unsubscribe'',
      lit ''opt'' @ [(Dot, Opt)] @ lit ''out'',
      lit ''remove'' @ [(Dot, Star)] @ lit ''email'',
      lit ''stop'' @ [(Dot, Star)] @ lit ''emails'',
      lit ''cancel'' @ [(Dot, Star)] @ lit ''subscription'',
      lit ''do'' @ [(Dot, Star)] @ lit ''not'' @ [(Dot, Star)] @ lit ''send'',
      lit ''delete'' @ [(Dot, Star)] @ lit ''subscription'',
      lit ''confirm'' @ [(Dot, Star)] @ lit ''unsubscribe'' ]"

definition ERROR_PATTERNS :: "regex list" where
  "ERROR_PATTERNS =
    [ lit ''captcha'',
      lit ''recaptcha'',
      lit ''verification'',
      lit ''sign'' @ [(Space, Plus)] @ lit ''in'',
      lit ''log'' @ [(Space, Plus)] @ lit ''in'',
      lit ''authentication'' @ [(Space, Plus)] @ lit ''required'',
      lit ''access'' @ [(Space, Plus)] @ lit ''denied'' ]"

section \<open>Unsubscribe executor (unsubscribe-agent)\<close>

datatype unsub_method = Header | SimpleClick | AiForm | Manual

fun method_name :: "unsub_method \<Rightarrow> string" where
  "method_name Header = ''header''"
| "method_name SimpleClick = ''simple-click''"
| "method_name AiForm = ''ai-form''"
| "method_name Manual = ''manual''"

record screenshot_paths =
  before :: "string option"
  after :: "string option"

text \<open>The field \<open>method\<close> of the result is \<open>method_used\<close> here.\<close>

record unsubscribe_result =
  success :: bool
  method_used :: unsub_method
  message :: string
  screenshotPaths :: "screenshot_paths option"
  error :: "string option"

text \<open>
  The outbound calls are the environment. \<open>fetch\<close> either rejects or resolves to a
  response with a status, a status text and a body whose reading may reject in turn;
  \<open>response.ok\<close> is the status lying in 200 .. 299.
\<close>

datatype fetch_outcome = FetchThrows string | Response nat string "string + string"

definition response_ok :: "nat \<Rightarrow> bool" where
  "response_ok status = (200 \<le> status \<and> status \<le> 299)"

datatype effect = HttpGet string | BrowserLaunch string

definition executeHeaderUnsubscribe ::
  "(string \<Rightarrow> fetch_outcome) \<Rightarrow> string \<Rightarrow> effect list \<times> unsubscribe_result" where
  "executeHeaderUnsubscribe fetch url =
     (if startsWith ''mailto:'' url then
        ([], \<lparr>success = False, method_used = Header,
              message = ''Mailto unsubscribe requires email sending (not implemented)'',
              screenshotPaths = None,
              error = Some ''Mailto method not supported in this implementation''\<rparr>)
      else
        ([HttpGet url],
         let caught = (\<lambda>m. \<lparr>success = False, method_used = Header,
                             message = ''Failed to execute header unsubscribe: '' @ m,
                             screenshotPaths = None, error = Some m\<rparr>)
         in case fetch url of
              FetchThrows m \<Rightarrow> caught m
            | Response status statusText text \<Rightarrow>
                if \<not> response_ok status then
                  \<lparr>success = False, method_used = Header,
                   message = ''HTTP '' @ decimal status @ '': '' @ statusText,
                   screenshotPaths = None,
                   error = Some (''Failed to access unsubscribe URL: '' @ decimal status)\<rparr>
                else
                  (case text of
                     Inl m \<Rightarrow> caught m
                   | Inr body \<Rightarrow>
                       if some_test SUCCESS_PATTERNS body then
                         \<lparr>success = True, method_used = Header,
                          message = ''Successfully unsubscribed via List-Unsubscribe header'',
                          screenshotPaths = None, error = None\<rparr>
                       else
                         \<lparr>success = False, method_used = Header,
                          message = ''No clear confirmation from header method, will try browser automation'',
                          screenshotPaths = None,
                          error = Some ''Could not confirm unsubscribe via header method''\<rparr>)))"

text \<open>
  Tier 2 drives a browser. The environment fixes what each call of the automation engine
  does: \<open>Some m\<close> in \<open>launch\<close>, \<open>newPage\<close>, \<open>screenshot\<close>, \<open>click\<close> and \<open>close\<close>
  is a rejection with message \<open>m\<close>; \<open>content_before\<close> is the page before the click and
  \<open>content_after\<close> the page after it; \<open>buttons\<close> and \<open>links\<close> are the elements the
  two locators return, in document order.
\<close>

datatype nav_outcome = NavThrows string | NavNull | NavResponse nat

record element =
  textContent :: "string option"
  click :: "string option"

record browser =
  launch :: "string option"
  newPage :: "string option"
  goto :: "string \<Rightarrow> nav_outcome"
  screenshot :: "string \<Rightarrow> string option"
  now :: "string \<Rightarrow> nat"
  content_before :: "string + string"
  buttons :: "element list"
  links :: "element list"
  content_after :: "string + string"
  close :: "string option"

text \<open>\<open>response.ok()\<close> of the automation engine: the status 0 of a file URL, or a
  status in 200 .. 299.\<close>

definition page_response_ok :: "nat \<Rightarrow> bool" where
  "page_response_ok status = (status = 0 \<or> (200 \<le> status \<and> status \<le> 299))"

definition saveScreenshot :: "browser \<Rightarrow> string \<Rightarrow> string \<Rightarrow> string + string" where
  "saveScreenshot b attemptId suffix =
     (case screenshot b suffix of
        Some m \<Rightarrow> Inl m
      | None \<Rightarrow>
          Inr (''/unsubscribe-logs/'' @ attemptId @ ''/'' @ suffix @ ''-''
               @ decimal (now b suffix) @ ''.png''))"

fun find_match :: "regex \<Rightarrow> element list \<Rightarrow> (string \<times> element) option" where
  "find_match pattern [] = None"
| "find_match pattern (e # es) =
     (case textContent e of
        None \<Rightarrow> find_match pattern es
      | Some text \<Rightarrow>
          if text \<noteq> [] \<and> regex_test pattern text then Some (text, e)
          else find_match pattern es)"

definition quoted :: "string \<Rightarrow> string" where
  "quoted s = [CHR 0x22] @ s @ [CHR 0x22]"

fun click_unsubscribe ::
  "regex list \<Rightarrow> element list \<Rightarrow> element list \<Rightarrow> string + string option" where
  "click_unsubscribe [] bs ls = Inr None"
| "click_unsubscribe (pattern # ps) bs ls =
     (case find_match pattern bs of
        Some (text, button) \<Rightarrow>
          (case click button of
             Some m \<Rightarrow> Inl m
           | None \<Rightarrow> Inr (Some (''button: '' @ quoted text)))
      | None \<Rightarrow>
          (case find_match pattern ls of
             Some (text, link) \<Rightarrow>
               (case click link of
                  Some m \<Rightarrow> Inl m
                | None \<Rightarrow> Inr (Some (''link: '' @ quoted text)))
           | None \<Rightarrow> click_unsubscribe ps bs ls))"

text \<open>The body of the \<open>try\<close> block: \<open>Inl m\<close> is an error thrown inside it.\<close>

definition tier2_try :: "browser \<Rightarrow> string \<Rightarrow> string \<Rightarrow> string + unsubscribe_result" where
  "tier2_try b url attemptId =
     (case newPage b of
        Some m \<Rightarrow> Inl m
      | None \<Rightarrow>
     (case goto b url of
        NavThrows m \<Rightarrow> Inl m
      | NavNull \<Rightarrow> Inl ''Failed to load page: undefined''
      | NavResponse status \<Rightarrow>
          if \<not> page_response_ok status then Inl (''Failed to load page: '' @ decimal status)
          else
     (case saveScreenshot b attemptId ''before'' of
        Inl m \<Rightarrow> Inl m
      | Inr beforePath \<Rightarrow>
     (case content_before b of
        Inl m \<Rightarrow> Inl m
      | Inr pageContent \<Rightarrow>
          if some_test ERROR_PATTERNS pageContent then
            (case close b of
               Some m \<Rightarrow> Inl m
             | None \<Rightarrow>
                 Inr \<lparr>success = False, method_used = SimpleClick,
                      message = ''Page requires CAPTCHA or login'',
                      screenshotPaths = Some \<lparr>before = Some beforePath, after = None\<rparr>,
                      error = Some ''CAPTCHA or authentication required''\<rparr>)
          else
     (case click_unsubscribe UNSUBSCRIBE_PATTERNS (buttons b) (links b) of
        Inl m \<Rightarrow> Inl m
      | Inr None \<Rightarrow>
          (case saveScreenshot b attemptId ''after-not-found'' of
             Inl m \<Rightarrow> Inl m
           | Inr afterPath \<Rightarrow>
               (case close b of
                  Some m \<Rightarrow> Inl m
                | None \<Rightarrow>
                    Inr \<lparr>success = False, method_used = SimpleClick,
                         message = ''Could not find unsubscribe button or link'',
                         screenshotPaths =
                           Some \<lparr>before = Some beforePath, after = Some afterPath\<rparr>,
                         error = Some ''No matching unsubscribe element found''\<rparr>))
      | Inr (Some clickedElement) \<Rightarrow>
     (case saveScreenshot b attemptId ''after'' of
        Inl m \<Rightarrow> Inl m
      | Inr afterPath \<Rightarrow>
     (case content_after b of
        Inl m \<Rightarrow> Inl m
      | Inr afterContent \<Rightarrow>
     (case close b of
        Some m \<Rightarrow> Inl m
      | None \<Rightarrow>
          if some_test SUCCESS_PATTERNS afterContent then
            Inr \<lparr>success = True, method_used = SimpleClick,
                 message = ''Successfully unsubscribed by clicking '' @ clickedElement,
                 screenshotPaths = Some \<lparr>before = Some beforePath, after = Some afterPath\<rparr>,
                 error = None\<rparr>
          else
            Inr \<lparr>success = False, method_used = SimpleClick,
                 message = ''Clicked '' @ clickedElement @ '' but could not confirm success'',
                 screenshotPaths = Some \<lparr>before = Some beforePath, after = Some afterPath\<rparr>,
                 error = Some ''No confirmation message found after clicking''\<rparr>))))))))"

text \<open>
  The \<open>catch\<close> block: an error screenshot is tried when the page exists, the browser is
  closed (a rejection of that call leaves the function), and a failure is returned.
\<close>

definition tier2_catch :: "browser \<Rightarrow> string \<Rightarrow> string \<Rightarrow> string + unsubscribe_result" where
  "tier2_catch b attemptId m =
     (let errorScreenshotPath =
            (if newPage b = None then
               (case saveScreenshot b attemptId ''error'' of
                  Inl screenshotError \<Rightarrow> None
                | Inr path \<Rightarrow> Some path)
             else None)
      in case close b of
           Some e \<Rightarrow> Inl e
         | None \<Rightarrow>
             Inr \<lparr>success = False, method_used = SimpleClick,
                  message = ''Browser automation failed: '' @ m,
                  screenshotPaths =
                    (case errorScreenshotPath of
                       Some path \<Rightarrow> Some \<lparr>before = None, after = Some path\<rparr>
                     | None \<Rightarrow> None),
                  error = Some m\<rparr>)"

definition executeSimpleUnsubscribe ::
  "browser \<Rightarrow> string \<Rightarrow> string \<Rightarrow> effect list \<times> (string + unsubscribe_result)" where
  "executeSimpleUnsubscribe b url attemptId =
     ([BrowserLaunch url],
      case launch b of
        Some m \<Rightarrow> Inl m
      | None \<Rightarrow>
          (case tier2_try b url attemptId of
             Inr r \<Rightarrow> Inr r
           | Inl m \<Rightarrow> tier2_catch b attemptId m))"

record world =
  fetch :: "string \<Rightarrow> fetch_outcome"
  chromium :: browser

text \<open>
  The result pairs the outbound calls that opened a tier, in order, with the returned
  record, or with the message of an error that leaves the function.
\<close>

definition unsubscribeEmail ::
  "world \<Rightarrow> string \<Rightarrow> string \<Rightarrow> effect list \<times> (string + unsubscribe_result)" where
  "unsubscribeEmail w url attemptId =
     (case executeHeaderUnsubscribe (fetch w) url of
        (calls1, tier1Result) \<Rightarrow>
          if success tier1Result then (calls1, Inr tier1Result)
          else
            (case executeSimpleUnsubscribe (chromium w) url attemptId of
               (calls2, Inl m) \<Rightarrow> (calls1 @ calls2, Inl m)
             | (calls2, Inr tier2Result) \<Rightarrow>
                 if success tier2Result then (calls1 @ calls2, Inr tier2Result)
                 else
                   (calls1 @ calls2,
                    Inr (tier2Result\<lparr>message :=
                           ''Automated unsubscribe failed. '' @ message tier2Result
                           @ ''. Manual unsubscribe recommended.''\<rparr>))))"

section \<open>Classification orchestrator (openai)\<close>

text \<open>
  A JavaScript number is modelled as the real number it denotes, and the literal
  \<open>0.7\<close> as seven tenths.
\<close>

record category =
  cat_id :: string
  cat_name :: string
  cat_description :: string

record email_data =
  ed_subject :: string
  ed_from :: string
  ed_body :: string

record classification_result =
  categoryId :: "string option"
  confidence :: real
  reasoning :: string

text \<open>
  One call of the chat completion endpoint either rejects, or the reading of its response
  raises a \<open>TypeError\<close> that names no network failure, or it yields
  \<open>response.choices[0]?.message?.content\<close>. The environment answers by prompt and
  attempt number; \<open>json_parse\<close> is \<open>JSON.parse\<close> read at the result type.
\<close>

datatype completion = ApiThrows string | ApiTypeError string | Content "string option"

text \<open>
  What an attempt throws: an error that \<open>pRetry\<close> retries, or a \<open>TypeError\<close> that names
  no network failure, on which \<open>pRetry\<close> gives up at once.
\<close>

datatype thrown = Thrown string | ThrownTypeError string

record openai =
  chat :: "string \<Rightarrow> nat \<Rightarrow> completion"
  json_parse :: "string \<Rightarrow> string + classification_result"

definition nl :: string where
  "nl = [CHR 0x0A]"

fun join :: "string \<Rightarrow> string list \<Rightarrow> string" where
  "join sep [] = []"
| "join sep [x] = x"
| "join sep (x # y # ys) = x @ sep @ join sep (y # ys)"

definition classify_prompt :: "email_data \<Rightarrow> category list \<Rightarrow> string" where
  "classify_prompt email categories =
     ''Analyze this email and classify it into the most appropriate category.'' @ nl
     @ nl
     @ ''Email:'' @ nl
     @ ''From: '' @ ed_from email @ nl
     @ ''Subject: '' @ ed_subject email @ nl
     @ ''Body: '' @ take 1000 (ed_body email)
     @ (if length (ed_body email) > 1000 then ''... (truncated)'' else []) @ nl
     @ nl
     @ ''Categories:'' @ nl
     @ join nl (map (\<lambda>cat. ''ID: '' @ cat_id cat @ '', Name: '' @ cat_name cat
                            @ '', Description: '' @ cat_description cat) categories) @ nl
     @ nl
     @ ''Return JSON with:'' @ nl
     @ ''{'' @ nl
     @ ''  '' @ quoted ''categoryId'' @ '': '' @ quoted ''<category_id>''
     @ '' or null if no good match,'' @ nl
     @ ''  '' @ quoted ''confidence'' @ '': <number between 0 and 1>,'' @ nl
     @ ''  '' @ quoted ''reasoning'' @ '': '' @ quoted ''<brief explanation>'' @ nl
     @ ''}''"

definition classify_attempt ::
  "openai \<Rightarrow> email_data \<Rightarrow> category list \<Rightarrow> nat \<Rightarrow> thrown + classification_result" where
  "classify_attempt ai email categories attemptNumber =
     (case chat ai (classify_prompt email categories) attemptNumber of
        ApiThrows m \<Rightarrow> Inl (Thrown m)
      | ApiTypeError m \<Rightarrow> Inl (ThrownTypeError m)
      | Content None \<Rightarrow> Inl (Thrown ''No response from OpenAI'')
      | Content (Some content) \<Rightarrow>
          if content = [] then Inl (Thrown ''No response from OpenAI'')
          else
            (case json_parse ai content of
               Inl m \<Rightarrow> Inl (Thrown m)
             | Inr result \<Rightarrow>
                 if confidence result < 0.7 then
                   Inr \<lparr>categoryId = None, confidence = confidence result,
                        reasoning = reasoning result\<rparr>
                 else Inr result))"

text \<open>
  \<open>pRetry\<close> is outside the repository. The attempt is run with its number, from 1; its
  value is the value of the call. On a \<open>TypeError\<close> that names no network failure the
  call rejects with it at once. Any other error is kept, and the attempt is run again
  while retries are left; when none is left the call rejects with the main error of the
  errors kept, which is the one whose message has occurred most often, the later one
  among equals.
\<close>

fun mainError_loop :: "string list \<Rightarrow> string list \<Rightarrow> string \<Rightarrow> nat \<Rightarrow> string" where
  "mainError_loop seen [] mainErr mainErrorCount = mainErr"
| "mainError_loop seen (m # rest) mainErr mainErrorCount =
     (let count = count_list seen m + 1
      in if count \<ge> mainErrorCount then mainError_loop (seen @ [m]) rest m count
         else mainError_loop (seen @ [m]) rest mainErr mainErrorCount)"

definition mainError :: "string list \<Rightarrow> string" where
  "mainError errors = mainError_loop [] errors [] 0"

fun pRetry_from ::
  "nat \<Rightarrow> (nat \<Rightarrow> thrown + 'a) \<Rightarrow> nat \<Rightarrow> string list \<Rightarrow> string + 'a" where
  "pRetry_from 0 run attemptNumber kept =
     (case run attemptNumber of
        Inr v \<Rightarrow> Inr v
      | Inl (ThrownTypeError m) \<Rightarrow> Inl m
      | Inl (Thrown m) \<Rightarrow> Inl (mainError (kept @ [m])))"
| "pRetry_from (Suc retriesLeft) run attemptNumber kept =
     (case run attemptNumber of
        Inr v \<Rightarrow> Inr v
      | Inl (ThrownTypeError m) \<Rightarrow> Inl m
      | Inl (Thrown m) \<Rightarrow> pRetry_from retriesLeft run (Suc attemptNumber) (kept @ [m]))"

definition pRetry :: "nat \<Rightarrow> (nat \<Rightarrow> thrown + 'a) \<Rightarrow> string + 'a" where
  "pRetry retries run = pRetry_from retries run 1 []"

definition classifyEmail ::
  "openai \<Rightarrow> email_data \<Rightarrow> category list \<Rightarrow> string + classification_result" where
  "classifyEmail ai email categories = pRetry 3 (classify_attempt ai email categories)"

definition summarize_prompt :: "email_data \<Rightarrow> string" where
  "summarize_prompt email =
     ''Summarize this email in 1-2 concise sentences. Focus on key information and action items.''
     @ nl
     @ nl
     @ ''From: '' @ ed_from email @ nl
     @ ''Subject: '' @ ed_subject email @ nl
     @ ''Body: '' @ take 1500 (ed_body email)
     @ (if length (ed_body email) > 1500 then ''... (truncated)'' else [])"

definition summarize_attempt :: "openai \<Rightarrow> email_data \<Rightarrow> nat \<Rightarrow> thrown + string" where
  "summarize_attempt ai email attemptNumber =
     (case chat ai (summarize_prompt email) attemptNumber of
        ApiThrows m \<Rightarrow> Inl (Thrown m)
      | ApiTypeError m \<Rightarrow> Inl (ThrownTypeError m)
      | Content None \<Rightarrow> Inl (Thrown ''No summary generated'')
      | Content (Some content) \<Rightarrow>
          if trim content = [] then Inl (Thrown ''No summary generated'')
          else Inr (trim content))"

definition summarizeEmail :: "openai \<Rightarrow> email_data \<Rightarrow> string + string" where
  "summarizeEmail ai email = pRetry 3 (summarize_attempt ai email)"

section \<open>Message normalizer (gmail)\<close>

text \<open>
  A message part carries its MIME type, its headers, its nested parts and, when
  \<open>part.body.data\<close> is a non-empty string, the text that payload decodes to.
\<close>

record header =
  h_name :: "string option"
  h_value :: "string option"

datatype message_part =
  Part (mimeType: string) (partHeaders: "header list") (bodyData: "string option")
       (parts: "message_part list")

record gmail_message =
  msg_id :: string
  payload :: "message_part option"

datatype received = DateOf string | CurrentTime

record parsed_email =
  gmailId :: string
  subject :: string
  fromAddr :: string
  body :: string
  bodyTruncated :: bool
  receivedAt :: received
  unsubscribeLink :: "string option"
  unsubscribeMethod :: string
  listUnsubscribe :: string

definition MAX_BODY_SIZE :: nat where
  "MAX_BODY_SIZE = 50 * 1024"

text \<open>\<open>Buffer.byteLength(s, 'utf8')\<close>: a code unit below U+0080 is one byte, the others
  below U+0100 are two.\<close>

definition utf8_units :: "char \<Rightarrow> nat" where
  "utf8_units c = (if (of_char c :: nat) < 128 then 1 else 2)"

definition byteLength :: "string \<Rightarrow> nat" where
  "byteLength s = sum_list (map utf8_units s)"

fun first_nonempty :: "string list \<Rightarrow> string" where
  "first_nonempty [] = []"
| "first_nonempty (r # rs) = (if r \<noteq> [] then r else first_nonempty rs)"

function extractBody :: "message_part \<Rightarrow> string" where
  "extractBody (Part mt hs d ps) =
     (case d of
        Some text \<Rightarrow> text
      | None \<Rightarrow>
          (case find (\<lambda>p. mimeType p = ''text/html'') ps of
             Some htmlPart \<Rightarrow> extractBody htmlPart
           | None \<Rightarrow>
               (case find (\<lambda>p. mimeType p = ''text/plain'') ps of
                  Some textPart \<Rightarrow> extractBody textPart
                | None \<Rightarrow> first_nonempty (map extractBody ps))))"
  by pat_completeness auto
termination
proof (relation "measure size")
  show "wf (measure (size :: message_part \<Rightarrow> nat))"
    by simp
next
  fix mt hs d ps x2
  assume "find (\<lambda>p. mimeType p = ''text/html'') ps = Some x2"
  then have "x2 \<in> set ps"
    by (auto simp: find_Some_iff)
  then have "size x2 \<le> size_list size ps"
    by (simp add: size_list_estimation')
  then show "(x2, Part mt hs d ps) \<in> measure size"
    by simp
next
  fix mt hs d ps x2
  assume "find (\<lambda>p. mimeType p = ''text/plain'') ps = Some x2"
  then have "x2 \<in> set ps"
    by (auto simp: find_Some_iff)
  then have "size x2 \<le> size_list size ps"
    by (simp add: size_list_estimation')
  then show "(x2, Part mt hs d ps) \<in> measure size"
    by simp
next
  fix mt :: string and hs :: "header list" and d :: "string option"
    and ps :: "message_part list" and z :: message_part
  assume "z \<in> set ps"
  then have "size z \<le> size_list size ps"
    by (simp add: size_list_estimation')
  then show "(z, Part mt hs d ps) \<in> measure size"
    by simp
qed

definition getEmailBody :: "gmail_message \<Rightarrow> string" where
  "getEmailBody msg = (case payload msg of None \<Rightarrow> [] | Some part \<Rightarrow> extractBody part)"

definition getHeader :: "header list \<Rightarrow> string \<Rightarrow> string" where
  "getHeader headers name =
     (case find (\<lambda>h. case h_name h of
                        None \<Rightarrow> False
                      | Some n \<Rightarrow> toLowerCase n = toLowerCase name) headers of
        None \<Rightarrow> []
      | Some h \<Rightarrow> (case h_value h of None \<Rightarrow> [] | Some v \<Rightarrow> v))"

text \<open>
  The first match of \<open><(https?:\/\/[^>]+)>\<close>, read just after an opening bracket: the
  scheme, then the longest run of characters other than the closing bracket, which must
  be non-empty and followed by that bracket.
\<close>

definition http_capture :: "string \<Rightarrow> string option" where
  "http_capture cs =
     (let k = (if startsWith ''https://'' cs then 8
               else if startsWith ''http://'' cs then 7 else 0);
          inner = takeWhile (\<lambda>x. x \<noteq> CHR ''>'') (drop k cs);
          rest = dropWhile (\<lambda>x. x \<noteq> CHR ''>'') (drop k cs)
      in if k \<noteq> 0 \<and> inner \<noteq> [] \<and> rest \<noteq> [] then Some (take k cs @ inner) else None)"

fun first_http_match :: "string \<Rightarrow> string option" where
  "first_http_match [] = None"
| "first_http_match (c # cs) =
     (if c = CHR ''<'' then
        (case http_capture cs of
           Some url \<Rightarrow> Some url
         | None \<Rightarrow> first_http_match cs)
      else first_http_match cs)"

definition parseEmailMessage :: "gmail_message \<Rightarrow> parsed_email" where
  "parseEmailMessage msg =
     (let headers = (case payload msg of None \<Rightarrow> [] | Some part \<Rightarrow> partHeaders part);
          date = getHeader headers ''Date'';
          listUnsub = getHeader headers ''List-Unsubscribe'';
          fullBody = getEmailBody msg;
          tooLarge = (byteLength fullBody > MAX_BODY_SIZE);
          urlMatch = (if listUnsub \<noteq> [] then first_http_match listUnsub else None)
      in \<lparr>gmailId = msg_id msg,
          subject = getHeader headers ''Subject'',
          fromAddr = getHeader headers ''From'',
          body = (if tooLarge then take MAX_BODY_SIZE fullBody else fullBody),
          bodyTruncated = tooLarge,
          receivedAt = (if date \<noteq> [] then DateOf date else CurrentTime),
          unsubscribeLink = urlMatch,
          unsubscribeMethod = (if urlMatch \<noteq> None then ''header'' else ''none''),
          listUnsubscribe = listUnsub\<rparr>)"

section \<open>Unsubscribe detector (unsubscribe-detector)\<close>

datatype detect_method = ByHeader | ByLink | NoMethod

fun detect_method_name :: "detect_method \<Rightarrow> string" where
  "detect_method_name ByHeader = ''header''"
| "detect_method_name ByLink = ''link''"
| "detect_method_name NoMethod = ''none''"

record unsubscribe_info =
  url :: "string option"
  via :: detect_method

text \<open>
  \<open>headerValue.match(/<([^>]+)>/g)\<close>: the matches from left to right, brackets
  included. A match is an opening bracket, the longest run of characters other than the
  closing bracket, non-empty, and that bracket; the search resumes after it.
\<close>

function angle_matches :: "string \<Rightarrow> string list" where
  "angle_matches [] = []"
| "angle_matches (c # cs) =
     (let inner = takeWhile (\<lambda>x. x \<noteq> CHR ''>'') cs;
          rest = dropWhile (\<lambda>x. x \<noteq> CHR ''>'') cs
      in if c = CHR ''<'' \<and> inner \<noteq> [] \<and> rest \<noteq> []
         then (c # inner @ [CHR ''>'']) # angle_matches (tl rest)
         else angle_matches cs)"
  by pat_completeness auto
termination
proof (relation "measure length")
  show "wf (measure (length :: string \<Rightarrow> nat))"
    by simp
next
  fix c :: char and cs x xa :: string
  assume "xa = dropWhile (\<lambda>x. x \<noteq> CHR ''>'') cs"
  then have "length (tl xa) \<le> length cs"
    using length_dropWhile_le [of "\<lambda>x. x \<noteq> CHR ''>''" cs] by simp
  then show "(tl xa, c # cs) \<in> measure length"
    by simp
next
  fix c :: char and cs :: string
  show "(cs, c # cs) \<in> measure length"
    by simp
qed

text \<open>\<open>match.slice(1, -1)\<close>.\<close>

definition slice_inner :: "string \<Rightarrow> string" where
  "slice_inner s = butlast (tl s)"

definition extractFromHeader :: "string \<Rightarrow> string option" where
  "extractFromHeader headerValue =
     (let urlMatches = angle_matches headerValue
      in if urlMatches = [] then None
         else
           (let urls = map (\<lambda>m. trim (slice_inner m)) urlMatches;
                httpUrl = find (startsWith ''http'') urls
            in if truthy httpUrl then httpUrl
               else
                 (let mailtoUrl = find (startsWith ''mailto:'') urls
                  in if truthy mailtoUrl then mailtoUrl else None)))"

text \<open>
  The HTML parser is outside the repository: \<open>load\<close> gives, for a body, either the
  failure of the parse or the anchors the selector \<open>a[href]\<close> finds, in document order,
  each with what the queries on it return.
\<close>

record anchor =
  href :: string
  linkText :: string
  classAttr :: "string option"
  parentText :: string
  parentIsFooter :: bool
  parentClosestFooter :: nat

record candidate =
  cand_href :: string
  priority :: nat

definition unsubscribePatterns :: "regex list" where
  "unsubscribePatterns =
    [ lit ''unsubscribe'',
      lit ''opt'' @ [(Dot, Opt)] @ lit ''out'',
      lit ''remove'' @ [(Dot, Opt)] @ lit ''me'',
      lit ''email'' @ [(Dot, Opt)] @ lit ''preferences'',
      lit ''manage'' @ [(Dot, Opt)] @ lit ''subscription'' @ [(Lit CHR ''s'', Opt)],
      lit ''stop'' @ [(Dot, Opt)] @ lit ''receiving'' ]"

definition link_priority :: "anchor \<Rightarrow> nat" where
  "link_priority a =
     (let p0 = 0;
          p1 = (if some_test unsubscribePatterns (toLowerCase (href a)) then p0 + 3 else p0);
          p2 = (if some_test unsubscribePatterns (trim (linkText a)) then p1 + 5 else p1);
          p3 = (if some_test unsubscribePatterns
                     (case classAttr a of None \<Rightarrow> [] | Some cls \<Rightarrow> cls)
                then p2 + 2 else p2);
          p4 = (if includes_str ''footer'' (toLowerCase (parentText a)) \<or> parentIsFooter a
                   \<or> parentClosestFooter a > 0
                then p3 + 1 else p3)
      in p4)"

fun candidateLinks :: "anchor list \<Rightarrow> candidate list" where
  "candidateLinks [] = []"
| "candidateLinks (a # as) =
     (if href a = [] \<or> \<not> startsWith ''http'' (href a) then candidateLinks as
      else if link_priority a > 0
        then \<lparr>cand_href = href a, priority = link_priority a\<rparr> # candidateLinks as
      else candidateLinks as)"

text \<open>
  \<open>candidateLinks.sort((a, b) => b.priority - a.priority)\<close>: the sort is stable, so it
  is an insertion from the right that keeps an element before its equals.
\<close>

fun insert_desc :: "candidate \<Rightarrow> candidate list \<Rightarrow> candidate list" where
  "insert_desc c [] = [c]"
| "insert_desc c (d # ds) =
     (if priority c < priority d then d # insert_desc c ds else c # d # ds)"

definition sort_desc :: "candidate list \<Rightarrow> candidate list" where
  "sort_desc cs = foldr insert_desc cs []"

definition extractFromBody :: "(string \<Rightarrow> string + anchor list) \<Rightarrow> string \<Rightarrow> string option" where
  "extractFromBody load emailBody =
     (case load emailBody of
        Inl parseError \<Rightarrow> None
      | Inr anchors \<Rightarrow>
          (case sort_desc (candidateLinks anchors) of
             [] \<Rightarrow> None
           | best # others \<Rightarrow> Some (cand_href best)))"

definition extractUnsubscribeInfo ::
  "(string \<Rightarrow> string + anchor list) \<Rightarrow> string \<Rightarrow> string option \<Rightarrow> unsubscribe_info" where
  "extractUnsubscribeInfo load emailBody headerValue =
     (let headerUrl =
            (case headerValue of
               None \<Rightarrow> None
             | Some v \<Rightarrow> if v = [] then None else extractFromHeader v)
      in if truthy headerUrl then \<lparr>url = headerUrl, via = ByHeader\<rparr>
         else
           (let bodyUrl = extractFromBody load emailBody
            in if truthy bodyUrl then \<lparr>url = bodyUrl, via = ByLink\<rparr>
               else \<lparr>url = None, via = NoMethod\<rparr>))"

text \<open>
  The same three functions with their exceptions written out: a result \<open>Inl\<close> is an
  exception that leaves the function, \<open>Inr\<close> a value it returns. The header argument
  ranges over the declared type \<open>{ listUnsubscribe?: string }\<close>, an absent or
  undefined field being \<open>None\<close>. \<open>String.prototype.match\<close> with the flag \<open>g\<close>
  gives null when nothing matches, a method called on null or undefined raises a
  \<open>TypeError\<close>, and so does the field of an element that an array does not have;
  whatever the parser raises inside the \<open>try\<close> of \<open>extractFromBody\<close> is an \<open>Inl\<close> of
  \<open>load\<close>.
\<close>

definition match_all :: "string \<Rightarrow> string list option" where
  "match_all headerValue =
     (if angle_matches headerValue = [] then None else Some (angle_matches headerValue))"

definition map_array :: "('a \<Rightarrow> 'b) \<Rightarrow> 'a list option \<Rightarrow> string + 'b list" where
  "map_array f arr =
     (case arr of
        None \<Rightarrow> Inl ''TypeError: Cannot read properties of null (reading map)''
      | Some xs \<Rightarrow> Inr (map f xs))"

definition first_href :: "candidate list \<Rightarrow> string + string" where
  "first_href cs =
     (case cs of
        [] \<Rightarrow> Inl ''TypeError: Cannot read properties of undefined (reading href)''
      | c # others \<Rightarrow> Inr (cand_href c))"

definition extractFromHeader_run :: "string \<Rightarrow> string + string option" where
  "extractFromHeader_run headerValue =
     (let urlMatches = match_all headerValue
      in if urlMatches = None then Inr None
         else
           (case map_array (\<lambda>m. trim (slice_inner m)) urlMatches of
              Inl thrown \<Rightarrow> Inl thrown
            | Inr urls \<Rightarrow>
                (let httpUrl = find (startsWith ''http'') urls
                 in if truthy httpUrl then Inr httpUrl
                    else
                      (let mailtoUrl = find (startsWith ''mailto:'') urls
                       in if truthy mailtoUrl then Inr mailtoUrl else Inr None))))"

text \<open>The block under \<open>try\<close>, and the function with its \<open>catch\<close>.\<close>

definition extractFromBody_try ::
  "(string \<Rightarrow> string + anchor list) \<Rightarrow> string \<Rightarrow> string + string option" where
  "extractFromBody_try load emailBody =
     (case load emailBody of
        Inl thrown \<Rightarrow> Inl thrown
      | Inr anchors \<Rightarrow>
          (let found = candidateLinks anchors
           in if length found > 0
              then (case first_href (sort_desc found) of
                      Inl thrown \<Rightarrow> Inl thrown
                    | Inr h \<Rightarrow> Inr (Some h))
              else Inr None))"

definition extractFromBody_run ::
  "(string \<Rightarrow> string + anchor list) \<Rightarrow> string \<Rightarrow> string + string option" where
  "extractFromBody_run load emailBody =
     (case extractFromBody_try load emailBody of
        Inl caught \<Rightarrow> Inr None
      | Inr bodyUrl \<Rightarrow> Inr bodyUrl)"

definition extractUnsubscribeInfo_run ::
  "(string \<Rightarrow> string + anchor list) \<Rightarrow> string \<Rightarrow> string option
     \<Rightarrow> string + unsubscribe_info" where
  "extractUnsubscribeInfo_run load emailBody headerValue =
     (case (case headerValue of
              None \<Rightarrow> Inr None
            | Some v \<Rightarrow> if v = [] then Inr None else extractFromHeader_run v) of
        Inl thrown \<Rightarrow> Inl thrown
      | Inr headerUrl \<Rightarrow>
          if truthy headerUrl then Inr \<lparr>url = headerUrl, via = ByHeader\<rparr>
          else
            (case extractFromBody_run load emailBody of
               Inl thrown \<Rightarrow> Inl thrown
             | Inr bodyUrl \<Rightarrow>
                 if truthy bodyUrl then Inr \<lparr>url = bodyUrl, via = ByLink\<rparr>
                 else Inr \<lparr>url = None, via = NoMethod\<rparr>))"

section \<open>Sync coordinator (cron/sync-emails)\<close>

record email_row =
  row_gmailId :: string
  row_gmailAccountId :: string
  row_subject :: string
  row_from :: string
  row_body :: string
  row_bodyTruncated :: bool
  row_receivedAt :: received
  row_unsubscribeLink :: "string option"
  row_unsubscribeMethod :: string
  row_summary :: "string option"
  row_categoryId :: "string option"
  row_archived :: bool

record failure =
  code :: "string option"
  reason :: string

text \<open>
  Modelled from the spec: the persistence schema is not among the sources. The spec has
  at most one Message per external id, and the coordinator names the duplicate-key
  violation by its code \<open>P2002\<close>: a create whose external id is present is refused
  with that code, any other create appends the row.
\<close>

definition db_create :: "email_row list \<Rightarrow> email_row \<Rightarrow> failure + email_row list" where
  "db_create table row =
     (if row_gmailId row \<in> set (map row_gmailId table)
      then Inl \<lparr>code = Some ''P2002'', reason = ''Unique constraint failed on gmailId''\<rparr>
      else Inr (table @ [row]))"

definition findUnique :: "email_row list \<Rightarrow> string \<Rightarrow> email_row option" where
  "findUnique table gid = find (\<lambda>r. row_gmailId r = gid) table"

text \<open>
  Rows that other writers commit while this run is between its lookup and its create;
  they go through the same constraint.
\<close>

fun commit_all :: "email_row list \<Rightarrow> email_row list \<Rightarrow> email_row list" where
  "commit_all table [] = table"
| "commit_all table (r # rs) =
     (case db_create table r of
        Inl f \<Rightarrow> commit_all table rs
      | Inr table' \<Rightarrow> commit_all table' rs)"

text \<open>
  What the outside does while one message is processed: a rejection of the lookup or of
  the create for a reason of its own, the answers of the AI service, the rows written
  concurrently, and whether the remote archive succeeds (the loop does not look at it).
\<close>

record email_io =
  lookup_fault :: "failure option"
  ai :: openai
  concurrent :: "email_row list"
  create_fault :: "failure option"
  archive_ok :: bool

datatype log_entry =
    AiProcessingError string string
  | ProcessingError string string

record sync_state =
  email_table :: "email_row list"
  accountNewEmails :: nat
  accountProcessed :: nat
  error_log :: "log_entry list"
  archive_calls :: "string list"

text \<open>The \<open>catch\<close> of the loop body: a duplicate-key violation is skipped, any
  other error is logged; the loop goes on either way.\<close>

definition on_error :: "string \<Rightarrow> failure \<Rightarrow> sync_state \<Rightarrow> sync_state" where
  "on_error gid f st =
     (if code f = Some ''P2002'' then st
      else st\<lparr>error_log := error_log st @ [ProcessingError gid (reason f)]\<rparr>)"

definition apply_detection ::
  "(string \<Rightarrow> string + anchor list) \<Rightarrow> parsed_email \<Rightarrow> parsed_email" where
  "apply_detection load emailData =
     (let unsubscribeInfo =
            extractUnsubscribeInfo load (body emailData) (Some (listUnsubscribe emailData))
      in if via unsubscribeInfo = ByLink \<and> truthy (url unsubscribeInfo)
         then emailData\<lparr>unsubscribeLink := url unsubscribeInfo,
                        unsubscribeMethod := ''link''\<rparr>
         else emailData)"

text \<open>
  The summary and the category of a message, the message counting as processed only
  when both calls return.
\<close>

definition ai_process ::
  "openai \<Rightarrow> category list \<Rightarrow> parsed_email \<Rightarrow> sync_state
   \<Rightarrow> string option \<times> string option \<times> sync_state" where
  "ai_process service categories emailData st =
     (let email = \<lparr>ed_subject = subject emailData, ed_from = fromAddr emailData,
                   ed_body = body emailData\<rparr>
      in case summarizeEmail service email of
           Inl aiError \<Rightarrow>
             (None, None,
              st\<lparr>error_log := error_log st @ [AiProcessingError (gmailId emailData) aiError]\<rparr>)
         | Inr summary \<Rightarrow>
             (case classifyEmail service email categories of
                Inl aiError \<Rightarrow>
                  (Some summary, None,
                   st\<lparr>error_log :=
                        error_log st @ [AiProcessingError (gmailId emailData) aiError]\<rparr>)
              | Inr classification \<Rightarrow>
                  (Some summary, categoryId classification,
                   st\<lparr>accountProcessed := accountProcessed st + 1\<rparr>)))"

definition new_row ::
  "string \<Rightarrow> parsed_email \<Rightarrow> string option \<Rightarrow> string option \<Rightarrow> email_row" where
  "new_row accountId emailData summary category =
     \<lparr>row_gmailId = gmailId emailData,
      row_gmailAccountId = accountId,
      row_subject = subject emailData,
      row_from = fromAddr emailData,
      row_body = body emailData,
      row_bodyTruncated = bodyTruncated emailData,
      row_receivedAt = receivedAt emailData,
      row_unsubscribeLink = unsubscribeLink emailData,
      row_unsubscribeMethod = unsubscribeMethod emailData,
      row_summary = summary,
      row_categoryId = category,
      row_archived = False\<rparr>"

definition process_email ::
  "(string \<Rightarrow> string + anchor list) \<Rightarrow> category list \<Rightarrow> string
   \<Rightarrow> parsed_email \<times> email_io \<Rightarrow> sync_state \<Rightarrow> sync_state" where
  "process_email load categories accountId item st =
     (let emailData = apply_detection load (fst item);
          io = snd item
      in case lookup_fault io of
           Some f \<Rightarrow> on_error (gmailId emailData) f st
         | None \<Rightarrow>
             (case findUnique (email_table st) (gmailId emailData) of
                Some existingEmail \<Rightarrow> st
              | None \<Rightarrow>
                  (case ai_process (ai io) categories emailData st of
                     (summary, category, st1) \<Rightarrow>
                       (let table = commit_all (email_table st1) (concurrent io);
                            st2 = st1\<lparr>email_table := table\<rparr>
                        in case create_fault io of
                             Some f \<Rightarrow> on_error (gmailId emailData) f st2
                           | None \<Rightarrow>
                               (case db_create table
                                       (new_row accountId emailData summary category) of
                                  Inl f \<Rightarrow> on_error (gmailId emailData) f st2
                                | Inr table' \<Rightarrow>
                                    st2\<lparr>email_table := table',
                                        archive_calls :=
                                          archive_calls st2 @ [gmailId emailData],
                                        accountNewEmails := accountNewEmails st2 + 1\<rparr>)))))"

fun sync_emails ::
  "(string \<Rightarrow> string + anchor list) \<Rightarrow> category list \<Rightarrow> string
   \<Rightarrow> (parsed_email \<times> email_io) list \<Rightarrow> sync_state \<Rightarrow> sync_state" where
  "sync_emails load categories accountId [] st = st"
| "sync_emails load categories accountId (item # items) st =
     sync_emails load categories accountId items
       (process_email load categories accountId item st)"

record account =
  acc_id :: string
  acc_email :: string

text \<open>
  What the outside gives for one account: its categories, the outcome of
  \<open>fetchNewEmails\<close> (a rejection, or the parsed messages each with its environment) and
  the time of the watermark update.
\<close>

record account_io =
  categories_of :: "category list"
  fetched :: "string + (parsed_email \<times> email_io) list"
  synced_at :: nat

datatype account_result =
    Skipped string string
  | Synced string nat nat
  | Errored string string

record database =
  db_emails :: "email_row list"
  lastSyncedAt :: "string \<Rightarrow> nat option"

record run_totals =
  totalNewEmails :: nat
  totalProcessed :: nat
  results :: "account_result list"
  errors :: "string list"

definition sync_account ::
  "(string \<Rightarrow> string + anchor list) \<Rightarrow> account \<times> account_io
   \<Rightarrow> database \<times> run_totals \<Rightarrow> database \<times> run_totals" where
  "sync_account load item acc =
     (let account = fst item; io = snd item; db = fst acc; totals = snd acc
      in if length (categories_of io) < 2 then
           (db, totals\<lparr>results := results totals
                  @ [Skipped (acc_email account) ''Minimum 2 categories required'']\<rparr>)
         else
           (case fetched io of
              Inl m \<Rightarrow>
                (db, totals\<lparr>errors := errors totals @ [acc_email account @ '': '' @ m],
                            results := results totals @ [Errored (acc_email account) m]\<rparr>)
            | Inr emails \<Rightarrow>
                (let st = sync_emails load (categories_of io) (acc_id account) emails
                            \<lparr>email_table = db_emails db, accountNewEmails = 0,
                             accountProcessed = 0, error_log = [], archive_calls = []\<rparr>
                 in (db\<lparr>db_emails := email_table st,
                        lastSyncedAt := (lastSyncedAt db)(acc_id account \<mapsto> synced_at io)\<rparr>,
                     totals\<lparr>totalNewEmails := totalNewEmails totals + accountNewEmails st,
                            totalProcessed := totalProcessed totals + accountProcessed st,
                            results := results totals
                              @ [Synced (acc_email account) (accountNewEmails st)
                                   (accountProcessed st)]\<rparr>))))"

datatype cron_response =
    NotConfigured
  | Unauthorized
  | NoAccounts
  | Completed nat run_totals

text \<open>
  One call of the endpoint: the shared secret of the process, the authorization header of
  the request, and the active accounts each with its environment.
\<close>

definition POST ::
  "(string \<Rightarrow> string + anchor list) \<Rightarrow> string option \<Rightarrow> string option
   \<Rightarrow> (account \<times> account_io) list \<Rightarrow> database \<Rightarrow> database \<times> cron_response" where
  "POST load cronSecret authHeader gmailAccounts db =
     (case cronSecret of
        None \<Rightarrow> (db, NotConfigured)
      | Some secret \<Rightarrow>
          if secret = [] then (db, NotConfigured)
          else if authHeader \<noteq> Some (''Bearer '' @ secret) then (db, Unauthorized)
          else if gmailAccounts = [] then (db, NoAccounts)
          else
            (case foldl (\<lambda>acc item. sync_account load item acc)
                    (db, \<lparr>totalNewEmails = 0, totalProcessed = 0, results = [], errors = []\<rparr>)
                    gmailAccounts of
               (db', totals) \<Rightarrow> (db', Completed (length gmailAccounts) totals)))"

section \<open>Token sealing (encryption)\<close>

text \<open>
  A \<open>Buffer\<close> is the list of its bytes. The codecs of \<open>Buffer\<close> and the functions of
  the \<open>crypto\<close> module are outside the repository and are parameters: the two base64
  conversions, the UTF-8 bytes that \<open>cipher.update(text, 'utf8')\<close> reads and
  \<open>toString('utf8')\<close>, \<open>pbkdf2Sync\<close>, the calls on a cipher (\<open>createCipheriv\<close>,
  \<open>update\<close>, \<open>final\<close>, \<open>getAuthTag\<close>), which give the ciphertext and the tag or raise,
  and the calls on a decipher (\<open>createDecipheriv\<close>, \<open>setAuthTag\<close>, \<open>update\<close>,
  \<open>final\<close>), which give the plaintext or raise.
\<close>

unbundle bit_operations_syntax
















section \<open>Notions used in the statements\<close>









text \<open>The external ids of a table, the processing errors of a log, the message handed
  to the AI service, and a sequence of calls of the endpoint.\<close>

definition ids :: "email_row list \<Rightarrow> string list" where
  "ids table = map row_gmailId table"

fun is_processing_error :: "log_entry \<Rightarrow> bool" where
  "is_processing_error (ProcessingError gid m) = True"
| "is_processing_error (AiProcessingError gid m) = False"

definition processing_errors :: "sync_state \<Rightarrow> log_entry list" where
  "processing_errors st = filter is_processing_error (error_log st)"

definition ai_input :: "parsed_email \<Rightarrow> email_data" where
  "ai_input emailData =
     \<lparr>ed_subject = subject emailData, ed_from = fromAddr emailData, ed_body = body emailData\<rparr>"

record cron_call =
  call_secret :: "string option"
  call_auth :: "string option"
  call_accounts :: "(account \<times> account_io) list"

fun sync_runs ::
  "(string \<Rightarrow> string + anchor list) \<Rightarrow> cron_call list \<Rightarrow> database \<Rightarrow> database" where
  "sync_runs load [] db = db"
| "sync_runs load (c # cs) db =
     sync_runs load cs (fst (POST load (call_secret c) (call_auth c) (call_accounts c) db))"

text \<open>A table grows: rows are only appended, and distinct external ids stay distinct.\<close>

definition grows :: "email_row list \<Rightarrow> email_row list \<Rightarrow> bool" where
  "grows t t' = ((\<exists>ys. t' = t @ ys) \<and> (distinct (ids t) \<longrightarrow> distinct (ids t')))"






section \<open>Example environments\<close>

definition example_page :: browser where
  "example_page =
     \<lparr>launch = None, newPage = None, goto = (\<lambda>u. NavResponse 200),
      screenshot = (\<lambda>suffix. None), now = (\<lambda>suffix. 1700000000000),
      content_before = Inr ''<button>Unsubscribe</button>'',
      buttons = [\<lparr>textContent = Some ''Unsubscribe'', click = None\<rparr>],
      links = [],
      content_after = Inr ''You have been unsubscribed'',
      close = None\<rparr>"

definition example_world :: world where
  "example_world =
     \<lparr>fetch = (\<lambda>u. Response 200 ''OK'' (Inr ''Click the button to unsubscribe'')),
      chromium = example_page\<rparr>"

definition confirming_world :: world where
  "confirming_world =
     \<lparr>fetch = (\<lambda>u. Response 200 ''OK'' (Inr ''You have been unsubscribed'')),
      chromium = example_page\<rparr>"


definition example_ai :: "real \<Rightarrow> openai" where
  "example_ai c =
     \<lparr>chat = (\<lambda>prompt attemptNumber. Content (Some ''{...}'')),
      json_parse = (\<lambda>content. Inr \<lparr>categoryId = Some ''cat-1'', confidence = c,
                                     reasoning = ''looks like a newsletter''\<rparr>)\<rparr>"

definition example_email :: email_data where
  "example_email = \<lparr>ed_subject = ''Weekly digest'', ed_from = ''news@example.com'',
                     ed_body = ''Hello''\<rparr>"

definition accented_message :: gmail_message where
  "accented_message =
     \<lparr>msg_id = ''m1'',
      payload = Some (Part ''text/html'' [] (Some (replicate 30000 (CHR 0xE9))) [])\<rparr>"



text \<open>A parse that finds the given anchors, an absolute address whose scheme is in
  capitals before an ordinary one, and a relative address before an ordinary one.\<close>

definition found :: "anchor list \<Rightarrow> string \<Rightarrow> string + anchor list" where
  "found as b = Inr as"



definition footer_anchor :: anchor where
  "footer_anchor =
     \<lparr>href = ''https://body.com/unsubscribe'', linkText = ''Unsubscribe'', classAttr = None,
      parentText = ''Unsubscribe'', parentIsFooter = True, parentClosestFooter = 1\<rparr>"

definition digest :: parsed_email where
  "digest =
     \<lparr>gmailId = ''m-1'', subject = ''Weekly digest'', fromAddr = ''news@example.com'',
      body = ''Hello'', bodyTruncated = False, receivedAt = CurrentTime,
      unsubscribeLink = None, unsubscribeMethod = ''none'', listUnsubscribe = []\<rparr>"

definition quiet_io :: "openai \<Rightarrow> email_row list \<Rightarrow> email_io" where
  "quiet_io service others =
     \<lparr>lookup_fault = None, ai = service, concurrent = others, create_fault = None,
      archive_ok = True\<rparr>"

text \<open>A service that summarizes and whose classification call is always rejected, and a
  service whose every call is rejected.\<close>

definition summary_only_ai :: openai where
  "summary_only_ai =
     \<lparr>chat = (\<lambda>prompt attemptNumber.
               if startsWith ''Summarize'' prompt then Content (Some ''A short digest.'')
               else ApiThrows ''rate limited''),
      json_parse = (\<lambda>content. Inl ''Unexpected token'')\<rparr>"

definition failing_ai :: openai where
  "failing_ai =
     \<lparr>chat = (\<lambda>prompt attemptNumber. ApiThrows ''rate limited''),
      json_parse = (\<lambda>content. Inl ''Unexpected token'')\<rparr>"

definition empty_state :: sync_state where
  "empty_state =
     \<lparr>email_table = [], accountNewEmails = 0, accountProcessed = 0, error_log = [],
      archive_calls = []\<rparr>"

definition two_categories :: "category list" where
  "two_categories =
     [ \<lparr>cat_id = ''cat-1'', cat_name = ''News'', cat_description = ''Newsletters''\<rparr>,
       \<lparr>cat_id = ''cat-2'', cat_name = ''Work'', cat_description = ''Work mail''\<rparr> ]"

definition no_anchors :: "string \<Rightarrow> string + anchor list" where
  "no_anchors b = Inr []"

definition digest_call :: cron_call where
  "digest_call =
     \<lparr>call_secret = Some ''s3cret'', call_auth = Some ''Bearer s3cret'',
      call_accounts =
        [ (\<lparr>acc_id = ''acc-1'', acc_email = ''user@example.com''\<rparr>,
           \<lparr>categories_of = two_categories,
            fetched = Inr [(digest, quiet_io failing_ai [])],
            synced_at = 1000\<rparr>) ]\<rparr>"

definition empty_db :: database where
  "empty_db = \<lparr>db_emails = [], lastSyncedAt = (\<lambda>a. None)\<rparr>"








section \<open>Properties of the unsubscribe executor\<close>

lemma tier2_try_shape:
  "tier2_try b u aid = Inr r \<Longrightarrow> method_used r = SimpleClick \<and> message r \<noteq> []"
  unfolding tier2_try_def
  by (auto split: option.splits nav_outcome.splits sum.splits if_splits)

lemma tier2_catch_shape:
  "tier2_catch b aid m = Inr r \<Longrightarrow> method_used r = SimpleClick \<and> message r \<noteq> []"
  unfolding tier2_catch_def
  by (auto simp: Let_def split: option.splits sum.splits if_splits)

lemma executeSimpleUnsubscribe_shape:
  "snd (executeSimpleUnsubscribe b u aid) = Inr r \<Longrightarrow>
     method_used r = SimpleClick \<and> message r \<noteq> []"
  unfolding executeSimpleUnsubscribe_def
  by (auto split: option.splits sum.splits dest: tier2_try_shape tier2_catch_shape)

lemma executeHeaderUnsubscribe_shape:
  "method_used (snd (executeHeaderUnsubscribe f u)) = Header
   \<and> message (snd (executeHeaderUnsubscribe f u)) \<noteq> []
   \<and> screenshotPaths (snd (executeHeaderUnsubscribe f u)) = None"
  unfolding executeHeaderUnsubscribe_def
  by (auto simp: Let_def split: fetch_outcome.splits sum.splits)

lemma unsubscribeEmail_unfold:
  "unsubscribeEmail w u aid =
     (if success (snd (executeHeaderUnsubscribe (fetch w) u))
      then (fst (executeHeaderUnsubscribe (fetch w) u),
            Inr (snd (executeHeaderUnsubscribe (fetch w) u)))
      else (fst (executeHeaderUnsubscribe (fetch w) u) @ [BrowserLaunch u],
            case snd (executeSimpleUnsubscribe (chromium w) u aid) of
              Inl m \<Rightarrow> Inl m
            | Inr r \<Rightarrow>
                Inr (if success r then r
                     else r\<lparr>message := ''Automated unsubscribe failed. '' @ message r
                              @ ''. Manual unsubscribe recommended.''\<rparr>)))"
  unfolding unsubscribeEmail_def
  by (cases "executeHeaderUnsubscribe (fetch w) u";
      cases "executeSimpleUnsubscribe (chromium w) u aid")
     (auto simp: executeSimpleUnsubscribe_def split: sum.splits)

lemma tier1_unconfirmed:
  assumes "\<not> startsWith ''mailto:'' u"
    and "f u = Response status statusText (Inr b)"
    and "200 \<le> status \<and> status \<le> 299"
    and "\<not> some_test SUCCESS_PATTERNS b"
  shows "fst (executeHeaderUnsubscribe f u) = [HttpGet u]"
    and "\<not> success (snd (executeHeaderUnsubscribe f u))"
  using assms by (simp_all add: executeHeaderUnsubscribe_def response_ok_def Let_def)

lemma example_page_clean:
  "\<not> some_test ERROR_PATTERNS ''<button>Unsubscribe</button>''"
  by code_simp

lemma example_page_click:
  "click_unsubscribe UNSUBSCRIBE_PATTERNS
     [\<lparr>textContent = Some ''Unsubscribe'', click = None\<rparr>] []
     = Inr (Some (''button: '' @ quoted ''Unsubscribe''))"
  by code_simp

lemma example_page_confirmed:
  "some_test SUCCESS_PATTERNS ''You have been unsubscribed''"
  by code_simp

lemma example_body_unconfirmed:
  "\<not> some_test SUCCESS_PATTERNS ''Click the button to unsubscribe''"
  by code_simp

lemma example_tier2:
  "snd (executeSimpleUnsubscribe example_page ''https://news.example/unsub'' ''a1'') =
     Inr \<lparr>success = True, method_used = SimpleClick,
          message = ''Successfully unsubscribed by clicking button: '' @ quoted ''Unsubscribe'',
          screenshotPaths =
            Some \<lparr>before = Some ''/unsubscribe-logs/a1/before-1700000000000.png'',
                  after = Some ''/unsubscribe-logs/a1/after-1700000000000.png''\<rparr>,
          error = None\<rparr>"
  by (simp add: executeSimpleUnsubscribe_def tier2_try_def example_page_def
        page_response_ok_def saveScreenshot_def digit_def example_page_clean
        example_page_click example_page_confirmed)

text \<open>
  C1. When the Tier-1 GET is answered with a status in 200 .. 299 and a body that none of
  the success patterns matches, \<open>unsubscribeEmail\<close> goes on to Tier 2: the browser is
  launched after the GET, and what the call yields is what the Tier-2 attempt yields
  (a failure with its message wrapped), so a returned record is never the Tier-1 one.
\<close>

theorem tier1_unconfirmed_escalates:
  assumes "\<not> startsWith ''mailto:'' u"
    and "fetch w u = Response status statusText (Inr b)"
    and "200 \<le> status \<and> status \<le> 299"
    and "\<not> some_test SUCCESS_PATTERNS b"
  shows "fst (unsubscribeEmail w u aid) = [HttpGet u, BrowserLaunch u]
       \<and> snd (unsubscribeEmail w u aid) =
           (case snd (executeSimpleUnsubscribe (chromium w) u aid) of
              Inl m \<Rightarrow> Inl m
            | Inr r \<Rightarrow>
                Inr (if success r then r
                     else r\<lparr>message := ''Automated unsubscribe failed. '' @ message r
                              @ ''. Manual unsubscribe recommended.''\<rparr>))
       \<and> (\<forall>r. snd (unsubscribeEmail w u aid) = Inr r \<longrightarrow> method_used r = SimpleClick)"
proof -
  note t1 = tier1_unconfirmed [of u "fetch w" status statusText b, OF assms]
  have calls: "fst (unsubscribeEmail w u aid) = [HttpGet u, BrowserLaunch u]"
    using t1 by (simp add: unsubscribeEmail_unfold)
  have res: "snd (unsubscribeEmail w u aid) =
           (case snd (executeSimpleUnsubscribe (chromium w) u aid) of
              Inl m \<Rightarrow> Inl m
            | Inr r \<Rightarrow>
                Inr (if success r then r
                     else r\<lparr>message := ''Automated unsubscribe failed. '' @ message r
                              @ ''. Manual unsubscribe recommended.''\<rparr>))"
    using t1 by (simp add: unsubscribeEmail_unfold)
  have "method_used r = SimpleClick" if "snd (unsubscribeEmail w u aid) = Inr r" for r
    using that executeSimpleUnsubscribe_shape [of "chromium w" u aid] unfolding res
    by (auto split: sum.splits if_splits)
  with calls res show ?thesis
    by blast
qed

theorem tier1_unconfirmed_escalates_witness:
  "fst (unsubscribeEmail example_world ''https://news.example/unsub'' ''a1'') =
     [HttpGet ''https://news.example/unsub'', BrowserLaunch ''https://news.example/unsub'']
   \<and> snd (unsubscribeEmail example_world ''https://news.example/unsub'' ''a1'') =
     Inr \<lparr>success = True, method_used = SimpleClick,
          message = ''Successfully unsubscribed by clicking button: '' @ quoted ''Unsubscribe'',
          screenshotPaths =
            Some \<lparr>before = Some ''/unsubscribe-logs/a1/before-1700000000000.png'',
                  after = Some ''/unsubscribe-logs/a1/after-1700000000000.png''\<rparr>,
          error = None\<rparr>"
proof -
  have h1: "\<not> startsWith ''mailto:'' ''https://news.example/unsub''"
    by (simp add: startsWith_def)
  have h2: "fetch example_world ''https://news.example/unsub'' =
              Response 200 ''OK'' (Inr ''Click the button to unsubscribe'')"
    by (simp add: example_world_def)
  have h3: "(200::nat) \<le> 200 \<and> (200::nat) \<le> 299"
    by simp
  have c: "chromium example_world = example_page"
    by (simp add: example_world_def)
  from tier1_unconfirmed_escalates [OF h1 h2 h3 example_body_unconfirmed, of "''a1''"]
  show ?thesis
    by (simp add: c example_tier2)
qed

text \<open>
  C9, as amended. A record returned by \<open>unsubscribeEmail\<close> has a non-empty message and
  the method \<open>header\<close> or \<open>simple-click\<close>; it has \<open>header\<close> only as the success of
  Tier 1, which carries no screenshot. The names \<open>tier2-click\<close> and \<open>manual\<close> are never
  produced.
\<close>

theorem unsubscribeEmail_result_record:
  assumes "snd (unsubscribeEmail w u aid) = Inr r"
  shows "method_name (method_used r) \<in> {''header'', ''simple-click''}
       \<and> message r \<noteq> []
       \<and> (method_used r = Header \<longrightarrow> success r \<and> screenshotPaths r = None)"
proof (cases "success (snd (executeHeaderUnsubscribe (fetch w) u))")
  case True
  then have "r = snd (executeHeaderUnsubscribe (fetch w) u)"
    using assms by (simp add: unsubscribeEmail_unfold)
  then show ?thesis
    using True executeHeaderUnsubscribe_shape [of "fetch w" u] by simp
next
  case False
  then obtain r2 where r2: "snd (executeSimpleUnsubscribe (chromium w) u aid) = Inr r2"
    and r: "r = (if success r2 then r2
                 else r2\<lparr>message := ''Automated unsubscribe failed. '' @ message r2
                           @ ''. Manual unsubscribe recommended.''\<rparr>)"
    using assms by (auto simp: unsubscribeEmail_unfold split: sum.splits)
  from executeSimpleUnsubscribe_shape [OF r2] show ?thesis
    unfolding r by simp
qed

theorem unsubscribeEmail_result_record_witness:
  "snd (unsubscribeEmail confirming_world ''https://news.example/unsub'' ''a2'') =
     Inr \<lparr>success = True, method_used = Header,
          message = ''Successfully unsubscribed via List-Unsubscribe header'',
          screenshotPaths = None, error = None\<rparr>
   \<and> method_name Header \<in> {''header'', ''simple-click''}"
proof -
  have h: "snd (unsubscribeEmail confirming_world ''https://news.example/unsub'' ''a2'') =
     Inr \<lparr>success = True, method_used = Header,
          message = ''Successfully unsubscribed via List-Unsubscribe header'',
          screenshotPaths = None, error = None\<rparr>"
    by (simp add: unsubscribeEmail_unfold executeHeaderUnsubscribe_def confirming_world_def
          startsWith_def response_ok_def example_page_confirmed)
  from unsubscribeEmail_result_record [OF h] h show ?thesis
    by simp
qed

text \<open>
  The claim as stated fails on a run in which Tier 1 is inconclusive and the click of
  Tier 2 is confirmed: the method of the returned record is \<open>simple-click\<close>.
\<close>

theorem unsubscribeEmail_method_counterexample:
  "\<not> isl (snd (unsubscribeEmail example_world ''https://news.example/unsub'' ''a1''))
   \<and> method_name (method_used (projr (snd (unsubscribeEmail example_world
          ''https://news.example/unsub'' ''a1'')))) = ''simple-click''
   \<and> method_name (method_used (projr (snd (unsubscribeEmail example_world
          ''https://news.example/unsub'' ''a1''))))
       \<notin> {''header'', ''tier2-click'', ''manual''}"
proof -
  have "snd (unsubscribeEmail example_world ''https://news.example/unsub'' ''a1'') =
     Inr \<lparr>success = True, method_used = SimpleClick,
          message = ''Successfully unsubscribed by clicking button: '' @ quoted ''Unsubscribe'',
          screenshotPaths =
            Some \<lparr>before = Some ''/unsubscribe-logs/a1/before-1700000000000.png'',
                  after = Some ''/unsubscribe-logs/a1/after-1700000000000.png''\<rparr>,
          error = None\<rparr>"
    by (simp add: unsubscribeEmail_unfold executeHeaderUnsubscribe_def example_world_def
          startsWith_def response_ok_def example_body_unconfirmed example_tier2)
  then show ?thesis
    by simp
qed

section \<open>Properties of the classification orchestrator\<close>

lemma pRetry_from_Inr:
  "pRetry_from k run n kept = Inr v \<Longrightarrow> \<exists>i. n \<le> i \<and> i \<le> n + k \<and> run i = Inr v"
proof (induction k arbitrary: n kept)
  case 0
  then show ?case
    by (auto split: sum.splits thrown.splits)
next
  case (Suc k)
  show ?case
  proof (cases "run n")
    case (Inr v')
    with Suc.prems show ?thesis by auto
  next
    case (Inl t)
    with Suc.prems obtain m where "pRetry_from k run (Suc n) (kept @ [m]) = Inr v"
      by (auto split: thrown.splits)
    from Suc.IH [OF this] obtain i where "Suc n \<le> i" "i \<le> Suc n + k" "run i = Inr v"
      by blast
    then show ?thesis
      by (intro exI [of _ i]) simp
  qed
qed

lemma pRetry_Inr:
  "pRetry k run = Inr v \<Longrightarrow> \<exists>i. 1 \<le> i \<and> i \<le> 1 + k \<and> run i = Inr v"
  unfolding pRetry_def by (rule pRetry_from_Inr)

text \<open>A \<open>TypeError\<close> that names no network failure ends the call at the first attempt;
  when every attempt fails otherwise, the call rejects with the main error of the four.\<close>

lemma pRetry_gives_up_on_type_error:
  "run 1 = Inl (ThrownTypeError m) \<Longrightarrow> pRetry k run = Inl m"
  by (cases k) (simp_all add: pRetry_def)

lemma pRetry_rejects_with_main_error:
  assumes "\<And>i. run i = Inl (Thrown (msgs i))"
  shows "pRetry 3 run = Inl (mainError [msgs 1, msgs 2, msgs 3, msgs 4])"
proof -
  have "pRetry_from (Suc (Suc (Suc 0))) run (Suc 0) []
          = Inl (mainError [msgs (Suc 0), msgs (Suc (Suc 0)), msgs (Suc (Suc (Suc 0))),
                            msgs (Suc (Suc (Suc (Suc 0))))])"
    by (simp only: pRetry_from.simps assms sum.case thrown.case append.simps)
  then show ?thesis
    by (simp add: pRetry_def eval_nat_numeral)
qed

lemma mainError_latest_among_equals:
  "mainError [''timeout'', ''rate limited'', ''rate limited'', ''timeout''] = ''timeout''"
  by (simp add: mainError_def)

lemma classify_attempt_Inr:
  assumes "classify_attempt service e cats i = Inr r"
  shows "\<exists>c p. chat service (classify_prompt e cats) i = Content (Some c)
           \<and> json_parse service c = Inr p
           \<and> confidence r = confidence p
           \<and> (confidence p < 0.7 \<longrightarrow> categoryId r = None)
           \<and> (0.7 \<le> confidence p \<longrightarrow> categoryId r = categoryId p)"
  using assms unfolding classify_attempt_def
  by (auto split: completion.splits option.splits sum.splits if_splits)

text \<open>
  C2. A result returned by \<open>classifyEmail\<close> comes from one of its at most four attempts,
  whose answer parsed to a result \<open>p\<close>: the confidence is that of \<open>p\<close>; below 0.7 the
  returned category is null whatever \<open>p\<close> proposed, and from 0.7 on it is the category
  \<open>p\<close> proposed.
\<close>

theorem classifyEmail_confidence_gate:
  assumes "classifyEmail service e cats = Inr r"
  shows "\<exists>i c p. 1 \<le> i \<and> i \<le> 4
           \<and> chat service (classify_prompt e cats) i = Content (Some c)
           \<and> json_parse service c = Inr p
           \<and> confidence r = confidence p
           \<and> (confidence p < 0.7 \<longrightarrow> categoryId r = None)
           \<and> (0.7 \<le> confidence p \<longrightarrow> categoryId r = categoryId p)"
proof -
  from assms have "pRetry 3 (classify_attempt service e cats) = Inr r"
    by (simp add: classifyEmail_def)
  from pRetry_Inr [OF this] obtain i where i: "1 \<le> i" "i \<le> 1 + 3"
    and run: "classify_attempt service e cats i = Inr r"
    by blast
  from classify_attempt_Inr [OF run] obtain c p
    where "chat service (classify_prompt e cats) i = Content (Some c)"
      and "json_parse service c = Inr p"
      and "confidence r = confidence p"
      and "confidence p < 0.7 \<longrightarrow> categoryId r = None"
      and "0.7 \<le> confidence p \<longrightarrow> categoryId r = categoryId p"
    by blast
  with i show ?thesis
    by (intro exI [of _ i] exI [of _ c] exI [of _ p]) simp
qed

lemma example_classification:
  "classifyEmail (example_ai c) example_email [] =
     Inr (if c < 0.7
          then \<lparr>categoryId = None, confidence = c, reasoning = ''looks like a newsletter''\<rparr>
          else \<lparr>categoryId = Some ''cat-1'', confidence = c,
                reasoning = ''looks like a newsletter''\<rparr>)"
  by (simp add: classifyEmail_def pRetry_def classify_attempt_def example_ai_def
        numeral_3_eq_3)

theorem classifyEmail_confidence_gate_witness:
  "classifyEmail (example_ai 0.65) example_email [] =
     Inr \<lparr>categoryId = None, confidence = 0.65, reasoning = ''looks like a newsletter''\<rparr>
   \<and> classifyEmail (example_ai 0.71) example_email [] =
     Inr \<lparr>categoryId = Some ''cat-1'', confidence = 0.71,
          reasoning = ''looks like a newsletter''\<rparr>"
proof -
  have low: "classifyEmail (example_ai 0.65) example_email [] =
     Inr \<lparr>categoryId = None, confidence = 0.65, reasoning = ''looks like a newsletter''\<rparr>"
    by (simp add: example_classification)
  have high: "classifyEmail (example_ai 0.71) example_email [] =
     Inr \<lparr>categoryId = Some ''cat-1'', confidence = 0.71,
          reasoning = ''looks like a newsletter''\<rparr>"
    by (simp add: example_classification)
  from classifyEmail_confidence_gate [OF low] classifyEmail_confidence_gate [OF high]
  show ?thesis
    using low high by simp
qed

section \<open>Properties of the message normalizer\<close>

lemma byteLength_replicate:
  "byteLength (replicate n c) = n * utf8_units c"
  by (induction n) (simp_all add: byteLength_def)

lemma byteLength_ascii:
  "\<forall>c\<in>set s. (of_char c :: nat) < 128 \<Longrightarrow> byteLength s = length s"
  by (induction s) (simp_all add: byteLength_def utf8_units_def)

text \<open>
  A body within the cap is stored as it is, with the flag clear, and the flag is a
  function of the message.
\<close>

lemma parseEmailMessage_small_verbatim:
  assumes "byteLength (getEmailBody m) \<le> MAX_BODY_SIZE"
  shows "body (parseEmailMessage m) = getEmailBody m"
    and "\<not> bodyTruncated (parseEmailMessage m)"
  using assms by (simp_all add: parseEmailMessage_def Let_def)

lemma parseEmailMessage_flag:
  "bodyTruncated (parseEmailMessage m) = (MAX_BODY_SIZE < byteLength (getEmailBody m))"
  by (simp add: parseEmailMessage_def Let_def)

text \<open>
  On a body of ASCII characters the cap holds, and a larger body is cut to exactly the cap:
  bytes and code units coincide there.
\<close>

lemma parseEmailMessage_ascii_capped:
  assumes "\<forall>c\<in>set (getEmailBody m). (of_char c :: nat) < 128"
  shows "byteLength (body (parseEmailMessage m)) \<le> MAX_BODY_SIZE"
    and "MAX_BODY_SIZE < byteLength (getEmailBody m) \<Longrightarrow>
           byteLength (body (parseEmailMessage m)) = MAX_BODY_SIZE"
proof -
  have a: "\<forall>c\<in>set (take MAX_BODY_SIZE (getEmailBody m)). (of_char c :: nat) < 128"
    using assms by (meson in_set_takeD)
  then have "byteLength (take MAX_BODY_SIZE (getEmailBody m)) \<le> MAX_BODY_SIZE"
    by (simp add: byteLength_ascii)
  then show "byteLength (body (parseEmailMessage m)) \<le> MAX_BODY_SIZE"
    by (simp add: parseEmailMessage_def Let_def)
  show "byteLength (body (parseEmailMessage m)) = MAX_BODY_SIZE"
    if "MAX_BODY_SIZE < byteLength (getEmailBody m)"
    using that a assms by (simp add: parseEmailMessage_def Let_def byteLength_ascii)
qed

text \<open>
  C3. The cap is tested in bytes and applied in code units. A message whose body is
  30000 times the letter U+00E9, 60000 bytes of UTF-8, is flagged as truncated and stored
  whole: 60000 bytes, not 51200.
\<close>

theorem parseEmailMessage_accented_exceeds_cap:
  "byteLength (getEmailBody accented_message) = 60000
   \<and> MAX_BODY_SIZE = 51200
   \<and> bodyTruncated (parseEmailMessage accented_message)
   \<and> body (parseEmailMessage accented_message) = getEmailBody accented_message
   \<and> byteLength (body (parseEmailMessage accented_message)) = 60000"
proof -
  have b: "getEmailBody accented_message = replicate 30000 (CHR 0xE9)"
    by (simp add: getEmailBody_def accented_message_def)
  have n: "byteLength (replicate 30000 (CHR 0xE9)) = 60000"
    by (simp add: byteLength_replicate utf8_units_def)
  show ?thesis
    by (simp add: parseEmailMessage_def Let_def b n MAX_BODY_SIZE_def)
qed

section \<open>Properties of the unsubscribe detector\<close>

lemma startsWith_append:
  "startsWith (p @ q) s \<Longrightarrow> startsWith p s"
proof -
  assume "startsWith (p @ q) s"
  then have "take (length p) (take (length (p @ q)) s) = take (length p) (p @ q)"
    by (simp add: startsWith_def)
  then show ?thesis
    by (simp add: startsWith_def min_def)
qed


lemma mailto_not_http:
  assumes "startsWith ''mailto:'' m"
  shows "\<not> startsWith ''http'' m"
proof
  assume h: "startsWith ''http'' m"
  from assms have "startsWith ''mail'' m"
    using startsWith_append [of "''mail''" "''to:''" m] by simp
  with h show False
    by (simp add: startsWith_def)
qed

lemma trim_no_space:
  assumes "\<forall>c\<in>set s. \<not> is_space c"
  shows "trim s = s"
proof -
  have d: "dropWhile is_space t = t" if "\<forall>c\<in>set t. \<not> is_space c" for t
    using that by (cases t) auto
  have "dropWhile is_space (rev s) = rev s"
    using assms by (intro d) simp
  with d [OF assms] show ?thesis
    by (simp add: trim_def)
qed



lemma slice_inner_brackets:
  "slice_inner (CHR ''<'' # u @ [CHR ''>'']) = u"
  by (simp add: slice_inner_def)











lemma insert_desc_nonempty:
  "insert_desc c ds \<noteq> []"
  by (cases ds) auto


lemma sort_desc_Nil_iff:
  "sort_desc cs = [] \<longleftrightarrow> cs = []"
  by (cases cs) (simp_all add: sort_desc_def insert_desc_nonempty)



























text \<open>The functions with their exceptions written out return what the functions give.\<close>

lemma extractFromHeader_run_returns:
  "extractFromHeader_run h = Inr (extractFromHeader h)"
  by (simp add: extractFromHeader_run_def extractFromHeader_def match_all_def map_array_def
        Let_def)

lemma extractFromBody_try_cases:
  "extractFromBody_try load b =
     (case load b of Inl thrown \<Rightarrow> Inl thrown | Inr as \<Rightarrow> Inr (extractFromBody load b))"
proof (cases "load b")
  case (Inl thrown)
  then show ?thesis
    by (simp add: extractFromBody_try_def)
next
  case (Inr as)
  show ?thesis
  proof (cases "sort_desc (candidateLinks as)")
    case Nil
    then have "candidateLinks as = []"
      by (simp add: sort_desc_Nil_iff)
    with Inr Nil show ?thesis
      by (simp add: extractFromBody_try_def extractFromBody_def)
  next
    case (Cons best others)
    then have "candidateLinks as \<noteq> []"
      using sort_desc_Nil_iff [of "candidateLinks as"] by auto
    with Inr Cons show ?thesis
      by (simp add: extractFromBody_try_def extractFromBody_def first_href_def)
  qed
qed

lemma extractFromBody_run_returns:
  "extractFromBody_run load b = Inr (extractFromBody load b)"
  by (cases "load b")
     (simp_all add: extractFromBody_run_def extractFromBody_try_cases extractFromBody_def)

lemma extractUnsubscribeInfo_run_returns:
  "extractUnsubscribeInfo_run load b hv = Inr (extractUnsubscribeInfo load b hv)"
  by (cases hv)
     (simp_all add: extractUnsubscribeInfo_run_def extractUnsubscribeInfo_def
        extractFromHeader_run_returns extractFromBody_run_returns Let_def)

text \<open>Without its guards the code would raise: on a header value without an entry, on
  an empty list of candidates, and on a body the parser raises on.\<close>

lemma unguarded_steps_raise:
  "angle_matches h = [] \<Longrightarrow> isl (map_array f (match_all h))"
  "isl (first_href [])"
  "isl (load b) \<Longrightarrow> isl (extractFromBody_try load b)"
  by (auto simp: map_array_def match_all_def first_href_def extractFromBody_try_cases
        split: sum.splits)

text \<open>
  C10. On every body, every behaviour of the parser and every header value of the declared
  type, \<open>extractUnsubscribeInfo\<close> returns a result and raises nothing: the run with its
  exceptions written out ends in the value of the function. What the parser raises is
  caught in \<open>extractFromBody\<close>, which then gives null rather than the exception. The
  method of the result is \<open>header\<close>, \<open>link\<close> or \<open>none\<close>, and its target is null exactly
  with \<open>none\<close> and never the empty string.
\<close>

theorem extractUnsubscribeInfo_never_throws:
  "extractUnsubscribeInfo_run load b hv = Inr (extractUnsubscribeInfo load b hv)
   \<and> extractFromBody_run load b
       = Inr (if isl (load b) then None else extractFromBody load b)
   \<and> detect_method_name (via (extractUnsubscribeInfo load b hv))
       \<in> {''header'', ''link'', ''none''}
   \<and> (url (extractUnsubscribeInfo load b hv) = None)
       = (via (extractUnsubscribeInfo load b hv) = NoMethod)
   \<and> url (extractUnsubscribeInfo load b hv) \<noteq> Some []"
proof (intro conjI)
  show "extractUnsubscribeInfo_run load b hv = Inr (extractUnsubscribeInfo load b hv)"
    by (rule extractUnsubscribeInfo_run_returns)
  show "extractFromBody_run load b = Inr (if isl (load b) then None else extractFromBody load b)"
    by (cases "load b") (simp_all add: extractFromBody_run_returns extractFromBody_def)
  show "detect_method_name (via (extractUnsubscribeInfo load b hv))
          \<in> {''header'', ''link'', ''none''}"
    by (simp add: extractUnsubscribeInfo_def Let_def)
  show "(url (extractUnsubscribeInfo load b hv) = None)
          = (via (extractUnsubscribeInfo load b hv) = NoMethod)"
    by (auto simp: extractUnsubscribeInfo_def Let_def truthy_def split: option.splits)
  show "url (extractUnsubscribeInfo load b hv) \<noteq> Some []"
    by (auto simp: extractUnsubscribeInfo_def Let_def truthy_def split: option.splits)
qed

lemma example_detector_values:
  "extractUnsubscribeInfo no_anchors [] None = \<lparr>url = None, via = NoMethod\<rparr>"
  "extractUnsubscribeInfo no_anchors ''Just plain text, no HTML'' (Some ''not-a-valid-url'')
     = \<lparr>url = None, via = NoMethod\<rparr>"
  "extractUnsubscribeInfo (found [footer_anchor]) ''<footer>...</footer>'' (Some [])
     = \<lparr>url = Some ''https://body.com/unsubscribe'', via = ByLink\<rparr>"
  "extractUnsubscribeInfo no_anchors []
     (Some ''<mailto:unsub@example.com>, <https://example.com/unsubscribe>'')
     = \<lparr>url = Some ''https://example.com/unsubscribe'', via = ByHeader\<rparr>"
  by code_simp+

theorem extractUnsubscribeInfo_never_throws_witness:
  "extractUnsubscribeInfo_run no_anchors [] None = Inr \<lparr>url = None, via = NoMethod\<rparr>
   \<and> extractUnsubscribeInfo_run no_anchors ''Just plain text, no HTML''
         (Some ''not-a-valid-url'')
       = Inr \<lparr>url = None, via = NoMethod\<rparr>
   \<and> extractUnsubscribeInfo_run (found [footer_anchor]) ''<footer>...</footer>'' (Some [])
       = Inr \<lparr>url = Some ''https://body.com/unsubscribe'', via = ByLink\<rparr>
   \<and> extractUnsubscribeInfo_run no_anchors []
         (Some ''<mailto:unsub@example.com>, <https://example.com/unsubscribe>'')
       = Inr \<lparr>url = Some ''https://example.com/unsubscribe'', via = ByHeader\<rparr>"
  using
    extractUnsubscribeInfo_never_throws [where load = no_anchors and b = "[]" and hv = None]
    extractUnsubscribeInfo_never_throws [where load = no_anchors
      and b = "''Just plain text, no HTML''" and hv = "Some ''not-a-valid-url''"]
    extractUnsubscribeInfo_never_throws [where load = "found [footer_anchor]"
      and b = "''<footer>...</footer>''" and hv = "Some []"]
    extractUnsubscribeInfo_never_throws [where load = no_anchors and b = "[]"
      and hv = "Some ''<mailto:unsub@example.com>, <https://example.com/unsubscribe>''"]
  by (simp only: example_detector_values)

section \<open>Properties of the sync coordinator\<close>

lemma grows_refl:
  "grows t t"
  by (simp add: grows_def)

lemma grows_trans:
  "grows t t' \<Longrightarrow> grows t' t'' \<Longrightarrow> grows t t''"
  by (auto simp: grows_def)

lemma db_create_eq:
  "db_create t r =
     (if row_gmailId r \<in> set (ids t)
      then Inl \<lparr>code = Some ''P2002'', reason = ''Unique constraint failed on gmailId''\<rparr>
      else Inr (t @ [r]))"
  by (simp add: db_create_def ids_def)

lemma db_create_grows:
  "db_create t r = Inr t' \<Longrightarrow> grows t t'"
  by (auto simp: db_create_eq grows_def ids_def split: if_splits)

lemma commit_all_grows:
  "grows t (commit_all t rs)"
proof (induction rs arbitrary: t)
  case Nil
  then show ?case by (simp add: grows_refl)
next
  case (Cons r rs)
  show ?case
  proof (cases "db_create t r")
    case (Inl f)
    with Cons.IH [of t] show ?thesis by simp
  next
    case (Inr t')
    with Cons.IH [of t'] db_create_grows [OF Inr] show ?thesis
      by (auto intro: grows_trans)
  qed
qed

lemma commit_all_ids:
  "set (ids (commit_all t rs)) = set (ids t) \<union> set (ids rs)"
  by (induction rs arbitrary: t) (auto simp: db_create_eq ids_def)

lemma findUnique_None_iff:
  "findUnique t g = None \<longleftrightarrow> g \<notin> set (ids t)"
  by (auto simp: findUnique_def ids_def find_None_iff)

lemma gmailId_apply_detection:
  "gmailId (apply_detection load e) = gmailId e"
  by (simp add: apply_detection_def Let_def)

lemma on_error_table:
  "email_table (on_error g f st) = email_table st"
  by (simp add: on_error_def)

lemma on_error_P2002:
  "code f = Some ''P2002'' \<Longrightarrow> on_error g f st = st"
  by (simp add: on_error_def)

lemma ai_process_cases:
  "ai_process service cats e st =
     (case summarizeEmail service (ai_input e) of
        Inl m \<Rightarrow>
          (None, None, st\<lparr>error_log := error_log st @ [AiProcessingError (gmailId e) m]\<rparr>)
      | Inr s \<Rightarrow>
          (case classifyEmail service (ai_input e) cats of
             Inl m \<Rightarrow>
               (Some s, None,
                st\<lparr>error_log := error_log st @ [AiProcessingError (gmailId e) m]\<rparr>)
           | Inr c \<Rightarrow>
               (Some s, categoryId c, st\<lparr>accountProcessed := accountProcessed st + 1\<rparr>)))"
  unfolding ai_process_def ai_input_def Let_def ..

lemma ai_process_keeps:
  assumes "ai_process service cats e st = (s, c, st1)"
  shows "email_table st1 = email_table st"
    and "accountNewEmails st1 = accountNewEmails st"
    and "processing_errors st1 = processing_errors st"
    and "archive_calls st1 = archive_calls st"
  using assms
  by (auto simp: ai_process_cases processing_errors_def split: sum.splits)

text \<open>The loop body written out on a message whose lookup is answered.\<close>

lemma process_email_present:
  assumes "lookup_fault io = None" and "gmailId e \<in> set (ids (email_table st))"
  shows "process_email load cats acc (e, io) st = st"
proof -
  from assms(2) obtain r where "findUnique (email_table st) (gmailId e) = Some r"
    using findUnique_None_iff [of "email_table st" "gmailId e"] by auto
  with assms(1) show ?thesis
    by (simp add: process_email_def Let_def gmailId_apply_detection)
qed

lemma process_email_absent:
  assumes "lookup_fault io = None" and "create_fault io = None"
    and "gmailId e \<notin> set (ids (email_table st))"
    and "ai_process (ai io) cats (apply_detection load e) st = (s, c, st1)"
  shows "process_email load cats acc (e, io) st =
     (let table = commit_all (email_table st) (concurrent io);
          st2 = st1\<lparr>email_table := table\<rparr>
      in if gmailId e \<in> set (ids table) then st2
         else st2\<lparr>email_table := table @ [new_row acc (apply_detection load e) s c],
                  archive_calls := archive_calls st2 @ [gmailId e],
                  accountNewEmails := accountNewEmails st2 + 1\<rparr>)"
proof -
  have f: "findUnique (email_table st) (gmailId e) = None"
    using assms(3) by (simp add: findUnique_None_iff)
  have t: "email_table st1 = email_table st"
    using ai_process_keeps(1) [OF assms(4)] .
  have g: "row_gmailId (new_row acc (apply_detection load e) s c) = gmailId e"
    by (simp add: new_row_def gmailId_apply_detection)
  show ?thesis
    using assms(1,2,4) f
    by (simp add: process_email_def Let_def gmailId_apply_detection t db_create_eq g
          on_error_P2002)
qed

lemma process_email_grows:
  "grows (email_table st) (email_table (process_email load cats acc item st))"
proof -
  obtain e io where item: "item = (e, io)"
    by (cases item)
  obtain s c st1 where a: "ai_process (ai io) cats (apply_detection load e) st = (s, c, st1)"
    by (cases "ai_process (ai io) cats (apply_detection load e) st")
  have t: "email_table st1 = email_table st"
    using ai_process_keeps(1) [OF a] .
  let ?table = "commit_all (email_table st) (concurrent io)"
  have g: "grows (email_table st) ?table"
    by (rule commit_all_grows)
  have g2: "grows (email_table st) t'"
    if "db_create ?table (new_row acc (apply_detection load e) s c) = Inr t'" for t'
    using g db_create_grows [OF that] by (rule grows_trans)
  show ?thesis
    unfolding item
    using a g g2
    by (auto simp: process_email_def Let_def t on_error_table grows_refl
             split: option.splits sum.splits)
qed

lemma sync_emails_grows:
  "grows (email_table st) (email_table (sync_emails load cats acc items st))"
proof (induction items arbitrary: st)
  case Nil
  then show ?case by (simp add: grows_refl)
next
  case (Cons item items)
  from process_email_grows [of st load cats acc item]
    Cons.IH [of "process_email load cats acc item st"]
  show ?case
    by (auto intro: grows_trans)
qed

lemma sync_account_grows:
  "grows (db_emails (fst a)) (db_emails (fst (sync_account load item a)))"
  using sync_emails_grows
    [of "\<lparr>email_table = db_emails (fst a), accountNewEmails = 0, accountProcessed = 0,
          error_log = [], archive_calls = []\<rparr>"]
  by (auto simp: sync_account_def Let_def grows_refl split: sum.splits)

lemma foldl_sync_account_grows:
  "grows (db_emails (fst a))
     (db_emails (fst (foldl (\<lambda>acc item. sync_account load item acc) a items)))"
proof (induction items arbitrary: a)
  case Nil
  then show ?case by (simp add: grows_refl)
next
  case (Cons item items)
  from sync_account_grows [of a load item] Cons.IH [of "sync_account load item a"]
  show ?case
    by (auto intro: grows_trans)
qed

lemma POST_grows:
  "grows (db_emails db) (db_emails (fst (POST load secret auth accounts db)))"
  using foldl_sync_account_grows
    [of "(db, \<lparr>totalNewEmails = 0, totalProcessed = 0, results = [], errors = []\<rparr>)"
        load accounts]
  by (auto simp: POST_def grows_refl split: option.splits prod.splits)

lemma sync_runs_grows:
  "grows (db_emails db) (db_emails (sync_runs load calls db))"
proof (induction calls arbitrary: db)
  case Nil
  then show ?case by (simp add: grows_refl)
next
  case (Cons c calls)
  from POST_grows [of db load "call_secret c" "call_auth c" "call_accounts c"]
    Cons.IH [of "fst (POST load (call_secret c) (call_auth c) (call_accounts c) db)"]
  show ?case
    by (auto intro: grows_trans)
qed

lemma process_email_raced:
  assumes "lookup_fault io = None" and "create_fault io = None"
    and "gmailId e \<notin> set (ids (email_table st))"
    and "gmailId e \<in> set (ids (concurrent io))"
  shows "email_table (process_email load cats acc (e, io) st) =
           commit_all (email_table st) (concurrent io)"
    and "accountNewEmails (process_email load cats acc (e, io) st) = accountNewEmails st"
    and "processing_errors (process_email load cats acc (e, io) st) = processing_errors st"
proof -
  obtain s c st1 where a: "ai_process (ai io) cats (apply_detection load e) st = (s, c, st1)"
    by (cases "ai_process (ai io) cats (apply_detection load e) st")
  have "gmailId e \<in> set (ids (commit_all (email_table st) (concurrent io)))"
    using assms(4) by (simp add: commit_all_ids)
  then have p: "process_email load cats acc (e, io) st =
                  st1\<lparr>email_table := commit_all (email_table st) (concurrent io)\<rparr>"
    using process_email_absent [OF assms(1-3) a, of acc] by (simp add: Let_def)
  show "email_table (process_email load cats acc (e, io) st) =
           commit_all (email_table st) (concurrent io)"
    by (simp add: p)
  show "accountNewEmails (process_email load cats acc (e, io) st) = accountNewEmails st"
    using ai_process_keeps(2) [OF a] by (simp add: p)
  show "processing_errors (process_email load cats acc (e, io) st) = processing_errors st"
    using ai_process_keeps(3) [OF a] by (simp add: p processing_errors_def)
qed

lemma process_email_new:
  assumes "lookup_fault io = None" and "create_fault io = None"
    and "gmailId e \<notin> set (ids (email_table st))"
    and "gmailId e \<notin> set (ids (concurrent io))"
    and "ai_process (ai io) cats (apply_detection load e) st = (s, c, st1)"
  shows "email_table (process_email load cats acc (e, io) st) =
           commit_all (email_table st) (concurrent io)
           @ [new_row acc (apply_detection load e) s c]"
    and "accountNewEmails (process_email load cats acc (e, io) st) = accountNewEmails st + 1"
proof -
  have n: "gmailId e \<notin> set (ids (commit_all (email_table st) (concurrent io)))"
    using assms(3,4) by (simp add: commit_all_ids)
  show "email_table (process_email load cats acc (e, io) st) =
           commit_all (email_table st) (concurrent io)
           @ [new_row acc (apply_detection load e) s c]"
    using process_email_absent [OF assms(1-3,5), of acc] n by (simp add: Let_def)
  show "accountNewEmails (process_email load cats acc (e, io) st) = accountNewEmails st + 1"
    using process_email_absent [OF assms(1-3,5), of acc] n ai_process_keeps(2) [OF assms(5)]
    by (simp add: Let_def)
qed

lemma digest_detection:
  "apply_detection no_anchors digest = digest"
  by (simp add: apply_detection_def extractUnsubscribeInfo_def extractFromBody_def
        no_anchors_def sort_desc_def digest_def Let_def truthy_def)

lemma digest_trimmed:
  "trim ''A short digest.'' = ''A short digest.''"
  by code_simp

lemma summary_only_summarize:
  "summarizeEmail summary_only_ai (ai_input digest) = Inr ''A short digest.''"
  by (simp add: summarizeEmail_def pRetry_def summarize_attempt_def summarize_prompt_def
        summary_only_ai_def startsWith_def numeral_3_eq_3 digest_trimmed)

lemma summary_only_classify:
  "classifyEmail summary_only_ai (ai_input digest) two_categories = Inl ''rate limited''"
  by (simp add: classifyEmail_def pRetry_def classify_attempt_def classify_prompt_def
        summary_only_ai_def startsWith_def numeral_3_eq_3 mainError_def)

lemma failing_summarize:
  "summarizeEmail failing_ai (ai_input digest) = Inl ''rate limited''"
  by (simp add: summarizeEmail_def pRetry_def summarize_attempt_def failing_ai_def
        numeral_3_eq_3 mainError_def)

lemma digest_ai_failing:
  "ai_process failing_ai two_categories digest st =
     (None, None, st\<lparr>error_log := error_log st @ [AiProcessingError ''m-1'' ''rate limited'']\<rparr>)"
  by (simp add: ai_process_cases failing_summarize) (simp add: digest_def)

lemma digest_ai_summary_only:
  "ai_process summary_only_ai two_categories digest st =
     (Some ''A short digest.'', None,
      st\<lparr>error_log := error_log st @ [AiProcessingError ''m-1'' ''rate limited'']\<rparr>)"
  by (simp add: ai_process_cases summary_only_summarize summary_only_classify)
     (simp add: digest_def)

text \<open>
  C7. A message whose external id is present at the lookup leaves the state as it is: no
  row, no log entry, no counter. A message whose id a concurrent writer commits between
  the lookup and the create meets the duplicate-key violation, which is skipped: the
  table is the one the other writer left, nothing is counted and no processing error is
  logged. Over any sequence of calls of the endpoint the rows present stay where they
  are, unchanged, and external ids that are distinct stay distinct.
\<close>

theorem ingestion_idempotent:
  "(lookup_fault io = None \<and> gmailId e \<in> set (ids (email_table st))
      \<longrightarrow> process_email load cats acc (e, io) st = st)
   \<and> (lookup_fault io = None \<and> create_fault io = None
        \<and> gmailId e \<notin> set (ids (email_table st)) \<and> gmailId e \<in> set (ids (concurrent io))
      \<longrightarrow> email_table (process_email load cats acc (e, io) st)
             = commit_all (email_table st) (concurrent io)
          \<and> accountNewEmails (process_email load cats acc (e, io) st) = accountNewEmails st
          \<and> processing_errors (process_email load cats acc (e, io) st)
             = processing_errors st)
   \<and> (distinct (ids (db_emails db))
      \<longrightarrow> distinct (ids (db_emails (sync_runs load calls db))))
   \<and> (\<exists>ys. db_emails (sync_runs load calls db) = db_emails db @ ys)"
proof (intro conjI impI)
  assume "lookup_fault io = None \<and> gmailId e \<in> set (ids (email_table st))"
  then show "process_email load cats acc (e, io) st = st"
    by (simp add: process_email_present)
next
  assume a: "lookup_fault io = None \<and> create_fault io = None
        \<and> gmailId e \<notin> set (ids (email_table st)) \<and> gmailId e \<in> set (ids (concurrent io))"
  then show "email_table (process_email load cats acc (e, io) st)
               = commit_all (email_table st) (concurrent io)"
    by (simp add: process_email_raced(1))
  from a show "accountNewEmails (process_email load cats acc (e, io) st) = accountNewEmails st"
    by (simp add: process_email_raced(2))
  from a show "processing_errors (process_email load cats acc (e, io) st)
                 = processing_errors st"
    by (simp add: process_email_raced(3))
next
  assume "distinct (ids (db_emails db))"
  then show "distinct (ids (db_emails (sync_runs load calls db)))"
    using sync_runs_grows [of db load calls] by (simp add: grows_def)
next
  show "\<exists>ys. db_emails (sync_runs load calls db) = db_emails db @ ys"
    using sync_runs_grows [of db load calls] by (simp add: grows_def)
qed

lemma digest_first_run:
  "process_email no_anchors two_categories ''acc-1'' (digest, quiet_io failing_ai [])
     empty_state =
     \<lparr>email_table = [new_row ''acc-1'' digest None None],
      accountNewEmails = 1, accountProcessed = 0,
      error_log = [AiProcessingError ''m-1'' ''rate limited''],
      archive_calls = [''m-1'']\<rparr>"
proof -
  have a: "ai_process (ai (quiet_io failing_ai [])) two_categories
             (apply_detection no_anchors digest) empty_state =
           (None, None,
            empty_state\<lparr>error_log := error_log empty_state
                          @ [AiProcessingError ''m-1'' ''rate limited'']\<rparr>)"
    by (simp add: digest_detection quiet_io_def digest_ai_failing)
  have "process_email no_anchors two_categories ''acc-1'' (digest, quiet_io failing_ai [])
          empty_state =
        empty_state\<lparr>error_log := [AiProcessingError ''m-1'' ''rate limited''],
                     email_table := [new_row ''acc-1'' digest None None],
                     archive_calls := [gmailId digest],
                     accountNewEmails := 1\<rparr>"
    using process_email_absent [OF _ _ _ a, of "''acc-1''"]
    by (simp add: quiet_io_def empty_state_def ids_def Let_def digest_detection)
  then show ?thesis
    by (simp add: empty_state_def digest_def)
qed

lemma digest_second_run:
  "process_email no_anchors two_categories ''acc-1'' (digest, quiet_io failing_ai [])
     \<lparr>email_table = [new_row ''acc-1'' digest None None],
      accountNewEmails = 0, accountProcessed = 0, error_log = [], archive_calls = []\<rparr> =
     \<lparr>email_table = [new_row ''acc-1'' digest None None],
      accountNewEmails = 0, accountProcessed = 0, error_log = [], archive_calls = []\<rparr>"
  by (rule process_email_present) (simp_all add: quiet_io_def ids_def new_row_def)

lemma digest_call_once:
  "fst (POST no_anchors (call_secret digest_call) (call_auth digest_call)
          (call_accounts digest_call) empty_db) =
     \<lparr>db_emails = [new_row ''acc-1'' digest None None],
      lastSyncedAt = (\<lambda>a. None)(''acc-1'' \<mapsto> 1000)\<rparr>"
  using digest_first_run
  by (simp add: POST_def sync_account_def digest_call_def two_categories_def empty_db_def
        empty_state_def Let_def)

lemma digest_call_twice:
  "db_emails (sync_runs no_anchors [digest_call, digest_call] empty_db) =
     [new_row ''acc-1'' digest None None]"
  using digest_second_run
  by (simp add: digest_call_once)
     (simp add: POST_def sync_account_def digest_call_def two_categories_def Let_def)

theorem ingestion_idempotent_witness:
  "process_email no_anchors two_categories ''acc-1'' (digest, quiet_io failing_ai [])
       (empty_state\<lparr>email_table := [new_row ''acc-9'' digest (Some ''kept'') None]\<rparr>)
     = empty_state\<lparr>email_table := [new_row ''acc-9'' digest (Some ''kept'') None]\<rparr>
   \<and> email_table (process_email no_anchors two_categories ''acc-1''
         (digest, quiet_io failing_ai [new_row ''acc-9'' digest (Some ''kept'') None])
         empty_state)
     = [new_row ''acc-9'' digest (Some ''kept'') None]
   \<and> processing_errors (process_email no_anchors two_categories ''acc-1''
         (digest, quiet_io failing_ai [new_row ''acc-9'' digest (Some ''kept'') None])
         empty_state) = []
   \<and> distinct (ids (db_emails (sync_runs no_anchors [digest_call, digest_call] empty_db)))
   \<and> db_emails (sync_runs no_anchors [digest_call, digest_call] empty_db)
     = [new_row ''acc-1'' digest None None]"
proof -
  let ?other = "new_row ''acc-9'' digest (Some ''kept'') None"
  have g: "row_gmailId ?other = gmailId digest"
    by (simp add: new_row_def)
  note i = ingestion_idempotent [where load = no_anchors and cats = two_categories
      and acc = "''acc-1''" and e = digest and db = empty_db
      and calls = "[digest_call, digest_call]"]
  have r1: "process_email no_anchors two_categories ''acc-1'' (digest, quiet_io failing_ai [])
       (empty_state\<lparr>email_table := [?other]\<rparr>) = empty_state\<lparr>email_table := [?other]\<rparr>"
    using i [where io = "quiet_io failing_ai []"
        and st = "empty_state\<lparr>email_table := [?other]\<rparr>"]
    by (simp add: quiet_io_def ids_def g)
  have r2: "email_table (process_email no_anchors two_categories ''acc-1''
         (digest, quiet_io failing_ai [?other]) empty_state) = [?other]
     \<and> processing_errors (process_email no_anchors two_categories ''acc-1''
         (digest, quiet_io failing_ai [?other]) empty_state) = []"
    using i [where io = "quiet_io failing_ai [?other]" and st = empty_state]
    by (simp add: quiet_io_def ids_def g empty_state_def db_create_eq processing_errors_def)
  have r3: "distinct (ids (db_emails (sync_runs no_anchors [digest_call, digest_call]
                                        empty_db)))"
    using i [where io = "quiet_io failing_ai []" and st = empty_state]
    by (simp add: empty_db_def ids_def)
  from r1 r2 r3 digest_call_twice show ?thesis
    by simp
qed

text \<open>
  C8, as amended. For a message that is not present, whose lookup and create are not
  rejected for a reason of their own: when summarization fails the row is persisted with
  null summary and null category; when summarization returns and classification fails the
  row is persisted with the summary obtained and a null category. The message is
  counted as new in both cases and the loop goes on with the remaining messages.
\<close>

theorem ai_failure_keeps_ingestion:
  "(lookup_fault io = None \<and> create_fault io = None
      \<and> gmailId e \<notin> set (ids (email_table st)) \<and> gmailId e \<notin> set (ids (concurrent io))
      \<and> summarizeEmail (ai io) (ai_input (apply_detection load e)) = Inl m
    \<longrightarrow> email_table (process_email load cats acc (e, io) st)
           = commit_all (email_table st) (concurrent io)
             @ [new_row acc (apply_detection load e) None None]
        \<and> accountNewEmails (process_email load cats acc (e, io) st)
           = accountNewEmails st + 1)
   \<and> (lookup_fault io = None \<and> create_fault io = None
      \<and> gmailId e \<notin> set (ids (email_table st)) \<and> gmailId e \<notin> set (ids (concurrent io))
      \<and> summarizeEmail (ai io) (ai_input (apply_detection load e)) = Inr s
      \<and> classifyEmail (ai io) (ai_input (apply_detection load e)) cats = Inl m
    \<longrightarrow> email_table (process_email load cats acc (e, io) st)
           = commit_all (email_table st) (concurrent io)
             @ [new_row acc (apply_detection load e) (Some s) None]
        \<and> accountNewEmails (process_email load cats acc (e, io) st)
           = accountNewEmails st + 1)
   \<and> row_summary (new_row acc (apply_detection load e) x y) = x
   \<and> row_categoryId (new_row acc (apply_detection load e) x y) = y
   \<and> sync_emails load cats acc ((e, io) # items) st
       = sync_emails load cats acc items (process_email load cats acc (e, io) st)"
proof (intro conjI impI)
  assume a: "lookup_fault io = None \<and> create_fault io = None
      \<and> gmailId e \<notin> set (ids (email_table st)) \<and> gmailId e \<notin> set (ids (concurrent io))
      \<and> summarizeEmail (ai io) (ai_input (apply_detection load e)) = Inl m"
  then have p: "ai_process (ai io) cats (apply_detection load e) st =
      (None, None,
       st\<lparr>error_log := error_log st
             @ [AiProcessingError (gmailId (apply_detection load e)) m]\<rparr>)"
    by (simp add: ai_process_cases)
  from a show "email_table (process_email load cats acc (e, io) st)
           = commit_all (email_table st) (concurrent io)
             @ [new_row acc (apply_detection load e) None None]"
    using process_email_new(1) [OF _ _ _ _ p] by simp
  from a show "accountNewEmails (process_email load cats acc (e, io) st)
           = accountNewEmails st + 1"
    using process_email_new(2) [OF _ _ _ _ p] by simp
next
  assume a: "lookup_fault io = None \<and> create_fault io = None
      \<and> gmailId e \<notin> set (ids (email_table st)) \<and> gmailId e \<notin> set (ids (concurrent io))
      \<and> summarizeEmail (ai io) (ai_input (apply_detection load e)) = Inr s
      \<and> classifyEmail (ai io) (ai_input (apply_detection load e)) cats = Inl m"
  then have p: "ai_process (ai io) cats (apply_detection load e) st =
      (Some s, None,
       st\<lparr>error_log := error_log st
             @ [AiProcessingError (gmailId (apply_detection load e)) m]\<rparr>)"
    by (simp add: ai_process_cases)
  from a show "email_table (process_email load cats acc (e, io) st)
           = commit_all (email_table st) (concurrent io)
             @ [new_row acc (apply_detection load e) (Some s) None]"
    using process_email_new(1) [OF _ _ _ _ p] by simp
  from a show "accountNewEmails (process_email load cats acc (e, io) st)
           = accountNewEmails st + 1"
    using process_email_new(2) [OF _ _ _ _ p] by simp
next
  show "row_summary (new_row acc (apply_detection load e) x y) = x"
    by (simp add: new_row_def)
  show "row_categoryId (new_row acc (apply_detection load e) x y) = y"
    by (simp add: new_row_def)
  show "sync_emails load cats acc ((e, io) # items) st
       = sync_emails load cats acc items (process_email load cats acc (e, io) st)"
    by simp
qed

theorem ai_failure_keeps_ingestion_witness:
  "email_table (process_email no_anchors two_categories ''acc-1''
       (digest, quiet_io failing_ai []) empty_state)
     = [new_row ''acc-1'' digest None None]
   \<and> email_table (process_email no_anchors two_categories ''acc-1''
       (digest, quiet_io summary_only_ai []) empty_state)
     = [new_row ''acc-1'' digest (Some ''A short digest.'') None]"
proof -
  note k = ai_failure_keeps_ingestion [where load = no_anchors and cats = two_categories
      and acc = "''acc-1''" and e = digest and st = empty_state and m = "''rate limited''"]
  have r1: "email_table (process_email no_anchors two_categories ''acc-1''
       (digest, quiet_io failing_ai []) empty_state) = [new_row ''acc-1'' digest None None]"
    using k [where io = "quiet_io failing_ai []"] failing_summarize
    by (simp add: quiet_io_def empty_state_def ids_def digest_detection)
  have r2: "email_table (process_email no_anchors two_categories ''acc-1''
       (digest, quiet_io summary_only_ai []) empty_state)
     = [new_row ''acc-1'' digest (Some ''A short digest.'') None]"
    using k [where io = "quiet_io summary_only_ai []" and s = "''A short digest.''"]
      summary_only_summarize summary_only_classify
    by (simp add: quiet_io_def empty_state_def ids_def digest_detection)
  from r1 r2 show ?thesis
    by simp
qed

text \<open>
  The claim as stated fails when only classification fails: the row is persisted with
  the summary, not with a null summary.
\<close>

theorem classification_failure_keeps_summary_counterexample:
  "summarizeEmail summary_only_ai (ai_input digest) = Inr ''A short digest.''
   \<and> classifyEmail summary_only_ai (ai_input digest) two_categories = Inl ''rate limited''
   \<and> map row_summary (email_table (process_email no_anchors two_categories ''acc-1''
         (digest, quiet_io summary_only_ai []) empty_state)) = [Some ''A short digest.'']
   \<and> map row_categoryId (email_table (process_email no_anchors two_categories ''acc-1''
         (digest, quiet_io summary_only_ai []) empty_state)) = [None]"
proof -
  have a: "ai_process (ai (quiet_io summary_only_ai [])) two_categories
             (apply_detection no_anchors digest) empty_state =
           (Some ''A short digest.'', None,
            empty_state\<lparr>error_log := error_log empty_state
                          @ [AiProcessingError ''m-1'' ''rate limited'']\<rparr>)"
    by (simp add: digest_detection quiet_io_def digest_ai_summary_only)
  have "email_table (process_email no_anchors two_categories ''acc-1''
          (digest, quiet_io summary_only_ai []) empty_state)
        = [new_row ''acc-1'' digest (Some ''A short digest.'') None]"
    using process_email_new(1) [OF _ _ _ _ a, of "''acc-1''"]
    by (simp add: quiet_io_def empty_state_def ids_def digest_detection)
  then show ?thesis
    by (simp add: summary_only_summarize summary_only_classify new_row_def)
qed

section \<open>Properties of the token sealing\<close>
































end
